theory Spec2Isabelle
  imports Complex_Main "HOL-Library.Word"
begin

section \<open>Values, errors and tables\<close>

text \<open>
  The texture array of \<^verbatim>\<open>arcade/gl/texture_array.py\<close>. Every \<^verbatim>\<open>raise\<close> of the
  class is one constructor of \<open>error\<close>; the interpreter's own exceptions that the
  class can run into (an unset slot, a wrong argument count, a bad array length) are
  constructors too.
\<close>

type_synonym byte = "8 word"

datatype error =
    ComponentsInvalid        \<comment> \<open>ValueError: Components must be 1, 2, 3 or 4\<close>
  | MultisampleNotWritable   \<comment> \<open>ValueError: Multisampled textures are not writable\<close>
  | CannotCreateTexture      \<comment> \<open>RuntimeError: OpenGL failed to generate a texture id\<close>
  | DtypeNotSupported        \<comment> \<open>ValueError: dype ... not support\<close>
  | DataSizeExpected         \<comment> \<open>ValueError: Data size does not match expected size\<close>
  | DataSizeReported         \<comment> \<open>ValueError: Data size does not match reported size\<close>
  | ImmutableResize          \<comment> \<open>ValueError: Immutable textures cannot be resized\<close>
  | SwizzleNotString         \<comment> \<open>ValueError: Swizzle must be a string\<close>
  | SwizzleLength            \<comment> \<open>ValueError: Swizzle must be a string of length 4\<close>
  | SwizzleValue             \<comment> \<open>ValueError: Swizzle value invalid\<close>
  | FilterNotPair            \<comment> \<open>ValueError: Texture filter must be a 2 component tuple\<close>
  | CompareFuncNotDepth      \<comment> \<open>ValueError: can only be set on depth textures\<close>
  | CompareFuncValue         \<comment> \<open>ValueError: value must be as string\<close>
  | MultisampleRead          \<comment> \<open>ValueError: Multisampled textures cannot be read directly\<close>
  | GlesRead                 \<comment> \<open>ValueError: not supported in GLES yet\<close>
  | UnknownApi               \<comment> \<open>ValueError: Unknown gl_api\<close>
  | MultisampleWrite         \<comment> \<open>ValueError: Writing to multisampled textures not supported\<close>
  | ViewportLength           \<comment> \<open>ValueError: Viewport must be of length 5\<close>
  | ArrayLength              \<comment> \<open>ValueError of ctypes: negative array length\<close>
  | AttributeError           \<comment> \<open>a slot read before it was assigned\<close>
  | TypeError                \<comment> \<open>len(None), or a foreign call with too few arguments\<close>
  | KeyError                 \<comment> \<open>a key that a table does not have\<close>

datatype exception_class =
  PyValueError | PyRuntimeError | PyAttributeError | PyTypeError | PyKeyError

fun exception_of :: "error \<Rightarrow> exception_class" where
  "exception_of CannotCreateTexture = PyRuntimeError"
| "exception_of AttributeError = PyAttributeError"
| "exception_of TypeError = PyTypeError"
| "exception_of KeyError = PyKeyError"
| "exception_of _ = PyValueError"

text \<open>
  Modelled from the spec: the error taxonomy of its section 7. The source raises
  \<^verbatim>\<open>ValueError\<close> at every one of these places; the spec calls them
  ConfigurationError (bad component count, bad element-kind string, bad swizzle string,
  viewport arity mismatch, compare-func set on non-depth texture, data supplied with
  multisampling, resize on immutable).
\<close>

fun is_ConfigurationError :: "error \<Rightarrow> bool" where
  "is_ConfigurationError ComponentsInvalid = True"
| "is_ConfigurationError DtypeNotSupported = True"
| "is_ConfigurationError SwizzleNotString = True"
| "is_ConfigurationError SwizzleLength = True"
| "is_ConfigurationError SwizzleValue = True"
| "is_ConfigurationError ViewportLength = True"
| "is_ConfigurationError CompareFuncNotDepth = True"
| "is_ConfigurationError MultisampleNotWritable = True"
| "is_ConfigurationError ImmutableResize = True"
| "is_ConfigurationError _ = False"

text \<open>The Python values that reach the dynamically checked setters.\<close>

datatype pyobj =
    PyNone
  | PyBool bool
  | PyInt int
  | PyFloat real
  | PyStr string
  | PyBytes "byte list"
  | PyTuple "pyobj list"

text \<open>
  The enumerants of the graphics library that the class passes around. \<open>GLuint n\<close> is
  a number supplied by the caller; \<open>Format d i\<close> and \<open>InternalFormat d i\<close> stand for
  \<^verbatim>\<open>pixel_formats[d][0][i]\<close> and \<^verbatim>\<open>pixel_formats[d][1][i]\<close>.
\<close>

datatype glenum =
    GLuint int
  | GL_LINEAR | GL_NEAREST | GL_REPEAT
  | GL_DEPTH_COMPONENT24 | GL_DEPTH_COMPONENT
  | GL_UNSIGNED_BYTE | GL_HALF_FLOAT | GL_FLOAT
  | GL_BYTE | GL_SHORT | GL_INT
  | GL_UNSIGNED_SHORT | GL_UNSIGNED_INT
  | GL_NONE | GL_COMPARE_REF_TO_TEXTURE
  | GL_LEQUAL | GL_LESS | GL_GEQUAL | GL_GREATER
  | GL_EQUAL | GL_NOTEQUAL | GL_NEVER | GL_ALWAYS
  | GL_RED | GL_GREEN | GL_BLUE | GL_ALPHA | GL_ZERO | GL_ONE
  | Format string int
  | InternalFormat string int

datatype gl_target = GL_TEXTURE_2D_ARRAY | GL_TEXTURE_2D_MULTISAMPLE_ARRAY

datatype gl_pname =
    GL_TEXTURE_MIN_FILTER | GL_TEXTURE_MAG_FILTER
  | GL_TEXTURE_WRAP_S | GL_TEXTURE_WRAP_T
  | GL_TEXTURE_SWIZZLE_R | GL_TEXTURE_SWIZZLE_G
  | GL_TEXTURE_SWIZZLE_B | GL_TEXTURE_SWIZZLE_A
  | GL_TEXTURE_MAX_ANISOTROPY
  | GL_TEXTURE_COMPARE_MODE | GL_TEXTURE_COMPARE_FUNC

datatype gl_pixel_store = GL_UNPACK_ALIGNMENT | GL_PACK_ALIGNMENT

datatype gl_param = ParamI glenum | ParamF real

text \<open>Truth value of an enumerant in \<^verbatim>\<open>value or default\<close>: the number zero is false.\<close>

fun truthy :: "glenum \<Rightarrow> bool" where
  "truthy (GLuint n) = (n \<noteq> 0)"
| "truthy GL_NONE = False"
| "truthy GL_ZERO = False"
| "truthy _ = True"

text \<open>
  Modelled from the spec: the tables \<^verbatim>\<open>pixel_formats\<close>, \<^verbatim>\<open>swizzle_str_to_enum\<close> and
  \<^verbatim>\<open>compare_funcs\<close> of \<^verbatim>\<open>arcade/gl/types.py\<close>, which is not among the sources. The keys
  and the component types are those of the class docstring (nine element kinds), the
  swizzle docstring (R, G, B, A, 0, 1) and the compare function docstring; the size of
  a component is the size of its type in bytes.
\<close>

definition pixel_formats ::
  "string \<rightharpoonup> ((int \<Rightarrow> glenum) \<times> (int \<Rightarrow> glenum) \<times> glenum \<times> int)" where
  "pixel_formats = map_of
    [(''f1'', (Format ''f1'', InternalFormat ''f1'', GL_UNSIGNED_BYTE, 1)),
     (''f2'', (Format ''f2'', InternalFormat ''f2'', GL_HALF_FLOAT, 2)),
     (''f4'', (Format ''f4'', InternalFormat ''f4'', GL_FLOAT, 4)),
     (''i1'', (Format ''i1'', InternalFormat ''i1'', GL_BYTE, 1)),
     (''i2'', (Format ''i2'', InternalFormat ''i2'', GL_SHORT, 2)),
     (''i4'', (Format ''i4'', InternalFormat ''i4'', GL_INT, 4)),
     (''u1'', (Format ''u1'', InternalFormat ''u1'', GL_UNSIGNED_BYTE, 1)),
     (''u2'', (Format ''u2'', InternalFormat ''u2'', GL_UNSIGNED_SHORT, 2)),
     (''u4'', (Format ''u4'', InternalFormat ''u4'', GL_UNSIGNED_INT, 4))]"

definition swizzle_str_to_enum :: "string \<rightharpoonup> glenum" where
  "swizzle_str_to_enum = map_of
    [(''R'', GL_RED), (''G'', GL_GREEN), (''B'', GL_BLUE),
     (''A'', GL_ALPHA), (''0'', GL_ZERO), (''1'', GL_ONE)]"

definition compare_funcs :: "string option \<rightharpoonup> glenum" where
  "compare_funcs = map_of
    [(None, GL_NONE),
     (Some ''<='', GL_LEQUAL), (Some ''<'', GL_LESS),
     (Some ''>='', GL_GEQUAL), (Some ''>'', GL_GREATER),
     (Some ''=='', GL_EQUAL), (Some ''!='', GL_NOTEQUAL),
     (Some ''0'', GL_NEVER), (Some ''1'', GL_ALWAYS)]"

text \<open>
  \<^verbatim>\<open>str.upper\<close> on one character. Only the letters a to z are mapped: no other
  character has an upper case among the keys of \<open>swizzle_str_to_enum\<close>.
\<close>

definition upper :: "char \<Rightarrow> string" where
  "upper c = (let n = (of_char c :: nat) in
     if 97 \<le> n \<and> n \<le> 122 then [char_of (n - 32)] else [c])"

text \<open>Python's \<^verbatim>\<open>min\<close> and \<^verbatim>\<open>max\<close> of two arguments: the first one wins a tie.\<close>

definition py_min :: "'a::linorder \<Rightarrow> 'a \<Rightarrow> 'a" where
  "py_min a b = (if b < a then b else a)"

definition py_max :: "'a::linorder \<Rightarrow> 'a \<Rightarrow> 'a" where
  "py_max a b = (if a < b then b else a)"

section \<open>The device\<close>

text \<open>
  The context and the graphics library are outside the class. They are modelled as one
  record: the limits and settings the class reads from the context, the counter behind
  \<^verbatim>\<open>ctx.stats\<close>, and the state of the graphics library that the calls of the class
  change. The library is idealised: an image keeps the bytes it was given, laid out
  layer by layer and row by row without padding, a fresh image is zero, and a command
  with an invalid argument is ignored.
\<close>

record gl_image =
  im_width :: nat
  im_height :: nat
  im_layers :: nat
  im_internal_format :: glenum
  im_samples :: int
  im_immutable :: bool
  im_bytes :: "nat \<Rightarrow> byte"

record gl_texture =
  gt_params :: "gl_pname \<rightharpoonup> gl_param"
  gt_image :: "gl_image option"

record device =
  gl_api :: string
  gc_mode :: string
  MAX_SAMPLES :: int
  MAX_TEXTURE_MAX_ANISOTROPY :: real
  default_texture_unit :: int
  stats_texture :: int
  current_context :: bool
  next_name :: nat
  active_texture :: int
  texture_binding :: "int \<times> gl_target \<Rightarrow> nat"
  pixel_unpack_buffer :: nat
  unpack_alignment :: int
  pack_alignment :: int
  textures :: "nat \<rightharpoonup> gl_texture"

text \<open>
  Modelled from the spec: \<^verbatim>\<open>ctx.stats\<close> (the context's statistics object is not among
  the sources) is the allocation counter of the spec: \<^verbatim>\<open>incr\<close> adds one to the count of
  live textures, \<^verbatim>\<open>decr\<close> takes one away.
\<close>

definition stats_incr :: "device \<Rightarrow> device" where
  "stats_incr d = d\<lparr>stats_texture := stats_texture d + 1\<rparr>"

definition stats_decr :: "device \<Rightarrow> device" where
  "stats_decr d = d\<lparr>stats_texture := stats_texture d - 1\<rparr>"

definition glActiveTexture :: "int \<Rightarrow> device \<Rightarrow> device" where
  "glActiveTexture unit d = d\<lparr>active_texture := unit\<rparr>"

text \<open>\<open>glGenTextures\<close> hands out \<open>next_name\<close>; the name 0 stands for a failure.\<close>

definition glGenTextures :: "device \<Rightarrow> nat \<times> device" where
  "glGenTextures d =
     (next_name d, d\<lparr>next_name := (if next_name d = 0 then 0 else next_name d + 1)\<rparr>)"

definition glBindTexture :: "gl_target \<Rightarrow> nat \<Rightarrow> device \<Rightarrow> device" where
  "glBindTexture tgt name d =
     d\<lparr>texture_binding := (texture_binding d)((active_texture d, tgt) := name),
       textures := (case textures d name of
                      None \<Rightarrow> (textures d)(name \<mapsto> \<lparr>gt_params = Map.empty, gt_image = None\<rparr>)
                    | Some _ \<Rightarrow> textures d)\<rparr>"

definition bound_name :: "gl_target \<Rightarrow> device \<Rightarrow> nat" where
  "bound_name tgt d = texture_binding d (active_texture d, tgt)"

definition upd_bound :: "gl_target \<Rightarrow> (gl_texture \<Rightarrow> gl_texture) \<Rightarrow> device \<Rightarrow> device" where
  "upd_bound tgt f d =
     (case textures d (bound_name tgt d) of
        None \<Rightarrow> d
      | Some obj \<Rightarrow> d\<lparr>textures := (textures d)(bound_name tgt d \<mapsto> f obj)\<rparr>)"

definition glTexParameteri :: "gl_target \<Rightarrow> gl_pname \<Rightarrow> glenum \<Rightarrow> device \<Rightarrow> device" where
  "glTexParameteri tgt pname v =
     upd_bound tgt (\<lambda>obj. obj\<lparr>gt_params := (gt_params obj)(pname \<mapsto> ParamI v)\<rparr>)"

definition glTexParameterf :: "gl_target \<Rightarrow> gl_pname \<Rightarrow> real \<Rightarrow> device \<Rightarrow> device" where
  "glTexParameterf tgt pname v =
     upd_bound tgt (\<lambda>obj. obj\<lparr>gt_params := (gt_params obj)(pname \<mapsto> ParamF v)\<rparr>)"

definition glPixelStorei :: "gl_pixel_store \<Rightarrow> int \<Rightarrow> device \<Rightarrow> device" where
  "glPixelStorei pname v d =
     (case pname of
        GL_UNPACK_ALIGNMENT \<Rightarrow> d\<lparr>unpack_alignment := v\<rparr>
      | GL_PACK_ALIGNMENT \<Rightarrow> d\<lparr>pack_alignment := v\<rparr>)"

definition glBindBuffer :: "nat \<Rightarrow> device \<Rightarrow> device" where
  "glBindBuffer name d = d\<lparr>pixel_unpack_buffer := name\<rparr>"

definition glDeleteTextures :: "nat \<Rightarrow> device \<Rightarrow> device" where
  "glDeleteTextures name d =
     d\<lparr>textures := (textures d)(name := None),
       texture_binding := (\<lambda>k. if texture_binding d k = name then 0 else texture_binding d k)\<rparr>"

text \<open>The bytes of an image given at allocation: the data, or zero.\<close>

definition initial_bytes :: "byte list option \<Rightarrow> nat \<Rightarrow> byte" where
  "initial_bytes data =
     (case data of
        None \<Rightarrow> (\<lambda>i. 0)
      | Some bs \<Rightarrow> (\<lambda>i. if i < length bs then bs ! i else 0))"

definition is_immutable :: "gl_texture \<Rightarrow> bool" where
  "is_immutable obj = (case gt_image obj of None \<Rightarrow> False | Some im \<Rightarrow> im_immutable im)"

definition set_image ::
  "gl_target \<Rightarrow> glenum \<Rightarrow> int \<Rightarrow> int \<Rightarrow> int \<Rightarrow> int \<Rightarrow> bool \<Rightarrow> (nat \<Rightarrow> byte) \<Rightarrow> device \<Rightarrow> device" where
  "set_image tgt ifmt w h l smp imm bytes =
     upd_bound tgt (\<lambda>obj.
       if w < 0 \<or> h < 0 \<or> l < 0 \<or> is_immutable obj then obj
       else obj\<lparr>gt_image := Some \<lparr>im_width = nat w, im_height = nat h, im_layers = nat l,
                                   im_internal_format = ifmt, im_samples = smp,
                                   im_immutable = imm, im_bytes = bytes\<rparr>\<rparr>)"

definition glTexImage3D ::
  "gl_target \<Rightarrow> int \<Rightarrow> glenum \<Rightarrow> int \<Rightarrow> int \<Rightarrow> int \<Rightarrow> glenum \<Rightarrow> glenum \<Rightarrow> byte list option
     \<Rightarrow> device \<Rightarrow> device" where
  "glTexImage3D tgt level ifmt w h l fmt ty data d =
     (if level = 0 then set_image tgt ifmt w h l 0 False (initial_bytes data) d else d)"

definition glTexStorage3D ::
  "gl_target \<Rightarrow> int \<Rightarrow> glenum \<Rightarrow> int \<Rightarrow> int \<Rightarrow> int \<Rightarrow> device \<Rightarrow> device" where
  "glTexStorage3D tgt levels ifmt w h l d =
     (if 1 \<le> levels then set_image tgt ifmt w h l 0 True (initial_bytes None) d else d)"

definition glTexImage3DMultisample ::
  "gl_target \<Rightarrow> int \<Rightarrow> glenum \<Rightarrow> int \<Rightarrow> int \<Rightarrow> int \<Rightarrow> device \<Rightarrow> device" where
  "glTexImage3DMultisample tgt smp ifmt w h l d =
     set_image tgt ifmt w h l smp False (initial_bytes None) d"

definition glCompressedTexImage3D ::
  "gl_target \<Rightarrow> int \<Rightarrow> glenum \<Rightarrow> int \<Rightarrow> int \<Rightarrow> int \<Rightarrow> int \<Rightarrow> byte list \<Rightarrow> device \<Rightarrow> device" where
  "glCompressedTexImage3D tgt level ifmt w h l sz data d =
     (if level = 0 then set_image tgt ifmt w h l 0 False (initial_bytes (Some data)) d else d)"

text \<open>Bytes of one pixel in client memory: the components of the format times the type.\<close>

fun format_components :: "glenum \<Rightarrow> nat" where
  "format_components (Format dt i) = nat i"
| "format_components GL_DEPTH_COMPONENT = 1"
| "format_components _ = 0"

fun type_size :: "glenum \<Rightarrow> nat" where
  "type_size GL_UNSIGNED_BYTE = 1"
| "type_size GL_BYTE = 1"
| "type_size GL_HALF_FLOAT = 2"
| "type_size GL_SHORT = 2"
| "type_size GL_UNSIGNED_SHORT = 2"
| "type_size GL_FLOAT = 4"
| "type_size GL_INT = 4"
| "type_size GL_UNSIGNED_INT = 4"
| "type_size _ = 0"

definition pixel_bytes :: "glenum \<Rightarrow> glenum \<Rightarrow> nat" where
  "pixel_bytes fmt ty = format_components fmt * type_size ty"

text \<open>
  The bytes of an image after a box of \<open>w\<close> by \<open>h\<close> pixels of layer \<open>l\<close>, at \<open>(x, y)\<close>,
  is overwritten with \<open>data\<close>: byte \<open>i\<close> belongs to pixel \<open>i div pix\<close>, whose column,
  row and layer follow from the width \<open>W\<close> and height \<open>H\<close> of the image.
\<close>

definition sub_image_bytes ::
  "nat \<Rightarrow> nat \<Rightarrow> nat \<Rightarrow> nat \<Rightarrow> nat \<Rightarrow> nat \<Rightarrow> nat \<Rightarrow> nat \<Rightarrow> byte list \<Rightarrow> (nat \<Rightarrow> byte)
     \<Rightarrow> nat \<Rightarrow> byte" where
  "sub_image_bytes W H pix x y l w h data old i =
     (let p = i div pix; cx = p mod W; cy = (p div W) mod H; cl = p div (W * H);
          j = ((cy - y) * w + (cx - x)) * pix + i mod pix
      in if 0 < pix \<and> cl = l \<and> x \<le> cx \<and> cx < x + w \<and> y \<le> cy \<and> cy < y + h
            \<and> j < length data
         then data ! j else old i)"

definition glTexSubImage3D ::
  "gl_target \<Rightarrow> int \<Rightarrow> int \<Rightarrow> int \<Rightarrow> int \<Rightarrow> int \<Rightarrow> int \<Rightarrow> int \<Rightarrow> glenum \<Rightarrow> glenum \<Rightarrow> byte list
     \<Rightarrow> device \<Rightarrow> device" where
  "glTexSubImage3D tgt level x y l w h dp fmt ty data =
     upd_bound tgt (\<lambda>obj.
       case gt_image obj of
         None \<Rightarrow> obj
       | Some im \<Rightarrow>
           if level = 0 \<and> dp = 1 \<and> 0 \<le> x \<and> 0 \<le> y \<and> 0 \<le> l \<and> 0 \<le> w \<and> 0 \<le> h
              \<and> x + w \<le> int (im_width im) \<and> y + h \<le> int (im_height im)
              \<and> l + dp \<le> int (im_layers im)
           then obj\<lparr>gt_image := Some (im\<lparr>im_bytes :=
                  sub_image_bytes (im_width im) (im_height im) (pixel_bytes fmt ty)
                    (nat x) (nat y) (nat l) (nat w) (nat h) data (im_bytes im)\<rparr>)\<rparr>
           else obj)"

text \<open>
  \<open>glGetTexImage\<close> fills the caller's buffer from the image bound to the target. Row
  padding is not modelled: with a pack alignment other than 1 the buffer is left as
  it is.
\<close>

definition glGetTexImage ::
  "gl_target \<Rightarrow> int \<Rightarrow> glenum \<Rightarrow> glenum \<Rightarrow> byte list \<Rightarrow> device \<Rightarrow> byte list" where
  "glGetTexImage tgt level fmt ty buffer d =
     (case textures d (bound_name tgt d) of
        None \<Rightarrow> buffer
      | Some obj \<Rightarrow>
          (case gt_image obj of
             None \<Rightarrow> buffer
           | Some im \<Rightarrow>
               if level = 0 \<and> pack_alignment d = 1
               then map (im_bytes im) [0..<length buffer]
               else buffer))"

section \<open>The texture array\<close>

text \<open>
  The slots of \<^verbatim>\<open>TextureArray\<close>. \<open>glo\<close> is the value of the \<^verbatim>\<open>GLuint\<close> behind
  \<^verbatim>\<open>_glo\<close>; \<open>tex_format\<close> and \<open>tex_type\<close> are \<open>None\<close> while the slot has not been
  assigned; \<open>internal_format\<close> is \<open>None\<close> for Python's \<^verbatim>\<open>None\<close>; \<open>finalizer\<close>
  tells whether \<^verbatim>\<open>weakref.finalize\<close> was registered for the object.
\<close>

record texture =
  glo :: nat
  width :: int
  height :: int
  layers :: int
  dtype :: string
  tex_target :: gl_target
  components :: int
  alignment :: int
  depth :: bool
  compare_func :: "string option"
  tex_format :: "glenum option"
  internal_format :: "glenum option"
  tex_type :: "glenum option"
  component_size :: int
  samples :: int
  tex_filter :: "glenum list"
  wrap_x :: glenum
  wrap_y :: glenum
  anisotropy :: real
  immutable :: bool
  compressed :: bool
  compressed_data :: bool
  finalizer :: bool

text \<open>The arguments of \<^verbatim>\<open>__init__\<close> (\<^verbatim>\<open>target\<close> is ignored by the class and left out).\<close>

record init_args =
  a_size :: "int \<times> int \<times> int"
  a_components :: int
  a_dtype :: string
  a_data :: "byte list option"
  a_filter :: "glenum list option"
  a_wrap_x :: "glenum option"
  a_wrap_y :: "glenum option"
  a_depth :: bool
  a_samples :: int
  a_immutable :: bool
  a_internal_format :: "glenum option"
  a_compressed :: bool
  a_compressed_data :: bool

definition default_args :: "int \<times> int \<times> int \<Rightarrow> init_args" where
  "default_args sz =
     \<lparr>a_size = sz, a_components = 4, a_dtype = ''f1'', a_data = None, a_filter = None,
      a_wrap_x = None, a_wrap_y = None, a_depth = False, a_samples = 0,
      a_immutable = False, a_internal_format = None, a_compressed = False,
      a_compressed_data = False\<rparr>"

text \<open>
  A method call returns its result or the exception it raised, together with the
  object and the device as the call left them.
\<close>

type_synonym 'a res = "(error + 'a) \<times> texture \<times> device"

definition then_res :: "'a res \<Rightarrow> ('a \<Rightarrow> texture \<Rightarrow> device \<Rightarrow> 'b res) \<Rightarrow> 'b res" where
  "then_res m f =
     (case m of
        (Inl e, t, d) \<Rightarrow> (Inl e, t, d)
      | (Inr x, t, d) \<Rightarrow> f x t d)"

text \<open>The three lines every setter starts its device work with.\<close>

definition bind_self :: "texture \<Rightarrow> device \<Rightarrow> device" where
  "bind_self t d =
     glBindTexture (tex_target t) (glo t) (glActiveTexture (default_texture_unit d) d)"

text \<open>
  Modelled from the spec: \<^verbatim>\<open>data_to_ctypes\<close> of \<^verbatim>\<open>arcade/gl/utils.py\<close> (not among the
  sources), on a byte string: its length and the bytes.
\<close>

definition data_to_ctypes :: "byte list \<Rightarrow> int \<times> byte list" where
  "data_to_ctypes data = (int (length data), data)"

definition validate_data_size ::
  "texture \<Rightarrow> byte list \<Rightarrow> int \<Rightarrow> int \<Rightarrow> int \<Rightarrow> int \<Rightarrow> error + unit" where
  "validate_data_size t byte_data byte_size w h l =
     (if compressed t then Inr ()
      else
        let expected_size = w * h * l * component_size t * components t in
        if byte_size \<noteq> expected_size then Inl DataSizeExpected
        else if int (length byte_data) \<noteq> byte_size then Inl DataSizeReported
        else Inr ())"

subsection \<open>Parameter setters\<close>

fun swizzle_enums :: "string \<Rightarrow> glenum list option" where
  "swizzle_enums [] = Some []"
| "swizzle_enums (c # cs) =
     (case swizzle_str_to_enum (upper c) of
        None \<Rightarrow> None
      | Some e \<Rightarrow> map_option ((#) e) (swizzle_enums cs))"

definition swizzle_setter :: "pyobj \<Rightarrow> texture \<Rightarrow> device \<Rightarrow> unit res" where
  "swizzle_setter v t d =
     (case v of
        PyStr s \<Rightarrow>
          if length s \<noteq> 4 then (Inl SwizzleLength, t, d)
          else (case swizzle_enums s of
                  None \<Rightarrow> (Inl SwizzleValue, t, d)
                | Some es \<Rightarrow>
                    (Inr (), t,
                     glTexParameteri (tex_target t) GL_TEXTURE_SWIZZLE_A (es ! 3)
                       (glTexParameteri (tex_target t) GL_TEXTURE_SWIZZLE_B (es ! 2)
                         (glTexParameteri (tex_target t) GL_TEXTURE_SWIZZLE_G (es ! 1)
                           (glTexParameteri (tex_target t) GL_TEXTURE_SWIZZLE_R (es ! 0)
                             (bind_self t d))))))
      | _ \<Rightarrow> (Inl SwizzleNotString, t, d))"

definition filter_setter :: "glenum list \<Rightarrow> texture \<Rightarrow> device \<Rightarrow> unit res" where
  "filter_setter v t d =
     (if length v \<noteq> 2 then (Inl FilterNotPair, t, d)
      else
        (Inr (), t\<lparr>tex_filter := v\<rparr>,
         glTexParameteri (tex_target t) GL_TEXTURE_MAG_FILTER (v ! 1)
           (glTexParameteri (tex_target t) GL_TEXTURE_MIN_FILTER (v ! 0) (bind_self t d))))"

definition wrap_x_setter :: "glenum \<Rightarrow> texture \<Rightarrow> device \<Rightarrow> unit res" where
  "wrap_x_setter v t d =
     (Inr (), t\<lparr>wrap_x := v\<rparr>, glTexParameteri (tex_target t) GL_TEXTURE_WRAP_S v (bind_self t d))"

definition wrap_y_setter :: "glenum \<Rightarrow> texture \<Rightarrow> device \<Rightarrow> unit res" where
  "wrap_y_setter v t d =
     (Inr (), t\<lparr>wrap_y := v\<rparr>, glTexParameteri (tex_target t) GL_TEXTURE_WRAP_T v (bind_self t d))"

definition anisotropy_setter :: "real \<Rightarrow> texture \<Rightarrow> device \<Rightarrow> unit res" where
  "anisotropy_setter v t d =
     (let a = py_max 1.0 (py_min v (MAX_TEXTURE_MAX_ANISOTROPY d)) in
      (Inr (), t\<lparr>anisotropy := a\<rparr>,
       glTexParameterf (tex_target t) GL_TEXTURE_MAX_ANISOTROPY a (bind_self t d)))"

text \<open>
  The second check of the compare function setter builds its message from
  \<^verbatim>\<open>self._compare_funcs\<close>, which is not a slot of the class: a value that is neither
  a string nor \<^verbatim>\<open>None\<close> ends in an AttributeError.
\<close>

definition set_compare_func :: "string option \<Rightarrow> texture \<Rightarrow> device \<Rightarrow> unit res" where
  "set_compare_func v t d =
     (case compare_funcs v of
        None \<Rightarrow> (Inl CompareFuncValue, t, d)
      | Some func \<Rightarrow>
          (Inr (), t\<lparr>compare_func := v\<rparr>,
           (if v = None
            then glTexParameteri (tex_target t) GL_TEXTURE_COMPARE_MODE GL_NONE (bind_self t d)
            else glTexParameteri (tex_target t) GL_TEXTURE_COMPARE_FUNC func
                   (glTexParameteri (tex_target t) GL_TEXTURE_COMPARE_MODE
                      GL_COMPARE_REF_TO_TEXTURE (bind_self t d)))))"

definition compare_func_setter :: "pyobj \<Rightarrow> texture \<Rightarrow> device \<Rightarrow> unit res" where
  "compare_func_setter v t d =
     (if \<not> depth t then (Inl CompareFuncNotDepth, t, d)
      else (case v of
              PyStr s \<Rightarrow> set_compare_func (Some s) t d
            | PyNone \<Rightarrow> set_compare_func None t d
            | _ \<Rightarrow> (Inl AttributeError, t, d)))"

subsection \<open>Reading and writing\<close>

definition read :: "int \<Rightarrow> int \<Rightarrow> texture \<Rightarrow> device \<Rightarrow> (byte list) res" where
  "read level align t d =
     (if samples t > 0 then (Inl MultisampleRead, t, d)
      else if gl_api d = ''gl'' then
        (let d1 = glPixelStorei GL_PACK_ALIGNMENT align (bind_self t d);
             n = width t * height t * layers t * component_size t * components t
         in if n < 0 then (Inl ArrayLength, t, d1)
            else (case (tex_format t, tex_type t) of
                    (Some fmt, Some ty) \<Rightarrow>
                      (Inr (glGetTexImage (tex_target t) level fmt ty
                              (replicate (nat n) 0) d1), t, d1)
                  | _ \<Rightarrow> (Inl AttributeError, t, d1)))
      else if gl_api d = ''gles'' then (Inl GlesRead, t, d)
      else (Inl UnknownApi, t, d))"

text \<open>The data of \<^verbatim>\<open>write\<close>: a \<^verbatim>\<open>Buffer\<close> (its name on the device) or bytes.\<close>

datatype write_data = FromBuffer nat | FromBytes "byte list"

text \<open>
  The box \<^verbatim>\<open>x, y, l, w, h\<close> that \<^verbatim>\<open>write\<close> works on. \<^verbatim>\<open>if viewport:\<close> is false for
  \<^verbatim>\<open>None\<close> and for an empty tuple.
\<close>

definition viewport_box ::
  "texture \<Rightarrow> int list option \<Rightarrow> error + (int \<times> int \<times> int \<times> int \<times> int)" where
  "viewport_box t viewport =
     (case viewport of
        None \<Rightarrow> Inr (0, 0, 0, width t, height t)
      | Some [] \<Rightarrow> Inr (0, 0, 0, width t, height t)
      | Some [x, y, l, w, h] \<Rightarrow> Inr (x, y, l, w, h)
      | Some _ \<Rightarrow> Inl ViewportLength)"

text \<open>
  The \<^verbatim>\<open>Buffer\<close> branch calls \<^verbatim>\<open>glTexSubImage3D\<close> with ten arguments where the function
  takes eleven: after its device calls it ends in a TypeError (or in an AttributeError
  when the format slot is unset, since the arguments are evaluated first).
\<close>

definition write_tex :: "write_data \<Rightarrow> int \<Rightarrow> int list option \<Rightarrow> texture \<Rightarrow> device \<Rightarrow> unit res" where
  "write_tex data level viewport t d =
     (if samples t > 0 then (Inl MultisampleWrite, t, d)
      else (case viewport_box t viewport of
              Inl e \<Rightarrow> (Inl e, t, d)
            | Inr (x, y, l, w, h) \<Rightarrow>
                (case data of
                   FromBuffer b \<Rightarrow>
                     (let d1 = glPixelStorei GL_UNPACK_ALIGNMENT 1
                                 (glPixelStorei GL_PACK_ALIGNMENT 1
                                   (bind_self t (glBindBuffer b d)))
                      in (case (tex_format t, tex_type t) of
                            (Some fmt, Some ty) \<Rightarrow> (Inl TypeError, t, d1)
                          | _ \<Rightarrow> (Inl AttributeError, t, d1)))
                 | FromBytes bs \<Rightarrow>
                     (let (byte_size, cdata) = data_to_ctypes bs in
                      case validate_data_size t cdata byte_size w h 1 of
                        Inl e \<Rightarrow> (Inl e, t, d)
                      | Inr _ \<Rightarrow>
                          (let d1 = glPixelStorei GL_UNPACK_ALIGNMENT 1
                                      (glPixelStorei GL_PACK_ALIGNMENT 1 (bind_self t d))
                           in (case (tex_format t, tex_type t) of
                                 (Some fmt, Some ty) \<Rightarrow>
                                   (Inr (), t,
                                    glTexSubImage3D (tex_target t) level x y l w h 1 fmt ty
                                      cdata d1)
                               | _ \<Rightarrow> (Inl AttributeError, t, d1)))))))"

subsection \<open>Allocation, resize and deletion\<close>

definition texture_2d :: "byte list option \<Rightarrow> texture \<Rightarrow> device \<Rightarrow> unit res" where
  "texture_2d data t d =
     (case pixel_formats (dtype t) of
        None \<Rightarrow> (Inl DtypeNotSupported, t, d)
      | Some (fmts, ifmts, ty, csize) \<Rightarrow>
          (let t1 = t\<lparr>tex_type := Some ty, component_size := csize\<rparr> in
           case (case data of
                   None \<Rightarrow> Inr ()
                 | Some bs \<Rightarrow>
                     (let (byte_length, cdata) = data_to_ctypes bs in
                      validate_data_size t1 cdata byte_length
                        (width t1) (height t1) (layers t1))) of
             Inl e \<Rightarrow> (Inl e, t1, d)
           | Inr _ \<Rightarrow>
               if tex_target t1 = GL_TEXTURE_2D_MULTISAMPLE_ARRAY then
                 (Inr (), t1,
                  glTexImage3DMultisample (tex_target t1) (samples t1) (ifmts (components t1))
                    (width t1) (height t1) (layers t1) d)
               else
                 (let d1 = glPixelStorei GL_PACK_ALIGNMENT (alignment t1)
                             (glPixelStorei GL_UNPACK_ALIGNMENT (alignment t1) d)
                  in if depth t1 then
                       compare_func_setter (PyStr ''<='') t1
                         (glTexImage3D (tex_target t1) 0 GL_DEPTH_COMPONENT24
                            (width t1) (height t1) (layers t1)
                            GL_DEPTH_COMPONENT GL_UNSIGNED_INT data d1)
                     else
                       (let fmt = fmts (components t1);
                            ifmt = (case internal_format t1 of
                                      None \<Rightarrow> ifmts (components t1)
                                    | Some f \<Rightarrow> f);
                            t2 = t1\<lparr>tex_format := Some fmt, internal_format := Some ifmt\<rparr>
                        in if immutable t2 then
                             (let d2 = glTexStorage3D (tex_target t2) 1 ifmt
                                         (width t2) (height t2) (layers t2) d1
                              in (case data of
                                    None \<Rightarrow> (Inr (), t2, d2)
                                  | Some bs \<Rightarrow>
                                      if bs = [] then (Inr (), t2, d2)
                                      else write_tex (FromBytes bs) 0 None t2 d2))
                           else if compressed_data t2 then
                             (case data of
                                None \<Rightarrow> (Inl TypeError, t2, d1)
                              | Some bs \<Rightarrow>
                                  (Inr (), t2,
                                   glCompressedTexImage3D (tex_target t2) 0 ifmt
                                     (width t2) (height t2) (layers t2)
                                     (int (length bs)) bs d1))
                           else
                             (Inr (), t2,
                              glTexImage3D (tex_target t2) 0 ifmt
                                (width t2) (height t2) (layers t2) fmt ty data d1)))))"

text \<open>The object as \<^verbatim>\<open>__init__\<close> has filled it in before its first check.\<close>

definition init_fields :: "init_args \<Rightarrow> device \<Rightarrow> texture" where
  "init_fields args d =
     \<lparr>glo = 0,
      width = fst (a_size args),
      height = fst (snd (a_size args)),
      layers = snd (snd (a_size args)),
      dtype = a_dtype args,
      tex_target = GL_TEXTURE_2D_ARRAY,
      components = a_components args,
      alignment = 1,
      depth = a_depth args,
      compare_func = None,
      tex_format = None,
      internal_format = a_internal_format args,
      tex_type = None,
      component_size = 0,
      samples = py_min (py_max 0 (a_samples args)) (MAX_SAMPLES d),
      tex_filter = (if CHR ''f'' \<in> set (a_dtype args)
                    then [GL_LINEAR, GL_LINEAR] else [GL_NEAREST, GL_NEAREST]),
      wrap_x = GL_REPEAT,
      wrap_y = GL_REPEAT,
      anisotropy = 1.0,
      immutable = a_immutable args,
      compressed = a_compressed args,
      compressed_data = a_compressed_data args,
      finalizer = False\<rparr>"

definition data_truthy :: "byte list option \<Rightarrow> bool" where
  "data_truthy data = (case data of None \<Rightarrow> False | Some bs \<Rightarrow> bs \<noteq> [])"

definition set_sampling :: "init_args \<Rightarrow> texture \<Rightarrow> device \<Rightarrow> unit res" where
  "set_sampling args t d =
     then_res
       (filter_setter
          (case a_filter args of
             None \<Rightarrow> tex_filter t
           | Some f \<Rightarrow> if f = [] then tex_filter t else f) t d)
       (\<lambda>_ t1 d1.
          then_res
            (wrap_x_setter
               (case a_wrap_x args of
                  None \<Rightarrow> wrap_x t1
                | Some v \<Rightarrow> if truthy v then v else wrap_x t1) t1 d1)
            (\<lambda>_ t2 d2.
               wrap_y_setter
                 (case a_wrap_y args of
                    None \<Rightarrow> wrap_y t2
                  | Some v \<Rightarrow> if truthy v then v else wrap_y t2) t2 d2))"

definition TextureArray_init :: "init_args \<Rightarrow> device \<Rightarrow> unit res" where
  "TextureArray_init args d =
     (let t0 = init_fields args d in
      if components t0 \<notin> set [1, 2, 3, 4] then (Inl ComponentsInvalid, t0, d)
      else if data_truthy (a_data args) \<and> samples t0 > 0
        then (Inl MultisampleNotWritable, t0, d)
      else
        (let t1 = t0\<lparr>tex_target := (if samples t0 = 0 then GL_TEXTURE_2D_ARRAY
                                      else GL_TEXTURE_2D_MULTISAMPLE_ARRAY)\<rparr>;
             (name, d2) = glGenTextures (glActiveTexture (default_texture_unit d) d);
             t2 = t1\<lparr>glo := name\<rparr>
         in if glo t2 = 0 then (Inl CannotCreateTexture, t2, d2)
            else
              then_res (texture_2d (a_data args) t2 (glBindTexture (tex_target t2) (glo t2) d2))
                (\<lambda>_ t3 d3.
                   then_res
                     (if samples t3 = 0 then set_sampling args t3 d3 else (Inr (), t3, d3))
                     (\<lambda>_ t4 d4.
                        (Inr (),
                         (if gc_mode d4 = ''auto'' then t4\<lparr>finalizer := True\<rparr> else t4),
                         stats_incr d4)))))"

definition resize :: "int \<times> int \<Rightarrow> texture \<Rightarrow> device \<Rightarrow> unit res" where
  "resize sz t d =
     (if immutable t then (Inl ImmutableResize, t, d)
      else texture_2d None (t\<lparr>width := fst sz, height := snd sz\<rparr>) (bind_self t d))"

definition delete_glo :: "nat \<Rightarrow> device \<Rightarrow> device" where
  "delete_glo name d =
     (if \<not> current_context d then d
      else stats_decr (if name \<noteq> 0 then glDeleteTextures name d else d))"

definition delete :: "texture \<Rightarrow> device \<Rightarrow> unit res" where
  "delete t d = (Inr (), t\<lparr>glo := 0\<rparr>, delete_glo (glo t) d)"

definition byte_size :: "texture \<Rightarrow> error + int" where
  "byte_size t =
     (case pixel_formats (dtype t) of
        None \<Rightarrow> Inl KeyError
      | Some (fmts, ifmts, ty, csize) \<Rightarrow> Inr (csize * components t * width t * height t))"

section \<open>Predicates of the specification and example states\<close>

text \<open>
  The swizzle values the specification accepts: a string of four characters, each one
  of R, G, B, A, 0, 1 in either case.
\<close>

definition valid_swizzle :: "pyobj \<Rightarrow> bool" where
  "valid_swizzle v =
     (case v of
        PyStr s \<Rightarrow> length s = 4 \<and> list_all (\<lambda>c. c \<in> set ''RGBA01rgba'') s
      | _ \<Rightarrow> False)"

text \<open>
  A device on the full API with nothing allocated, and the textures that
  \<^verbatim>\<open>__init__\<close> makes on it: two layers of two by one RGBA pixels of unsigned bytes,
  mutable and immutable.
\<close>

definition dev0 :: device where
  "dev0 = \<lparr>gl_api = ''gl'', gc_mode = ''context_gc'', MAX_SAMPLES = 4,
     MAX_TEXTURE_MAX_ANISOTROPY = 16, default_texture_unit = 0, stats_texture = 0,
     current_context = True, next_name = 1, active_texture = 0,
     texture_binding = (\<lambda>_. 0), pixel_unpack_buffer = 0, unpack_alignment = 4,
     pack_alignment = 4, textures = Map.empty\<rparr>"

definition args0 :: init_args where
  "args0 = default_args (2, 1, 2)"

definition tex0 :: texture where
  "tex0 = fst (snd (TextureArray_init args0 dev0))"

definition dev1 :: device where
  "dev1 = snd (snd (TextureArray_init args0 dev0))"

definition tex_imm :: texture where
  "tex_imm = fst (snd (TextureArray_init (args0\<lparr>a_immutable := True\<rparr>) dev0))"


text \<open>
  What the class reads from the context, and the slots of the object that no method
  other than \<^verbatim>\<open>__init__\<close>, \<^verbatim>\<open>resize\<close> and \<^verbatim>\<open>delete\<close> assigns.
\<close>

definition ctx_of :: "device \<Rightarrow> string \<times> string \<times> int \<times> real \<times> int \<times> bool" where
  "ctx_of d = (gl_api d, gc_mode d, MAX_SAMPLES d, MAX_TEXTURE_MAX_ANISOTROPY d,
               default_texture_unit d, current_context d)"

definition shape ::
  "texture \<Rightarrow> nat \<times> int \<times> int \<times> int \<times> string \<times> gl_target \<times> int \<times> bool \<times> int \<times> bool \<times> bool \<times> bool" where
  "shape t = (glo t, width t, height t, layers t, dtype t, tex_target t, components t,
              depth t, samples t, immutable t, compressed t, compressed_data t)"

text \<open>
  \<open>well_formed\<close>: the component count is one of 1 to 4 and the component size is the
  one the table gives for the element kind, as \<^verbatim>\<open>__init__\<close> and \<^verbatim>\<open>resize\<close> leave
  them. \<open>ready\<close>: the format and type slots are assigned (the texture is not a depth
  texture), they describe pixels of \<open>component_size * components\<close> bytes, and the
  device holds an image for the handle with the dimensions of the object.
  \<open>image_dims\<close>: the dimensions of the image the device holds for a name.
\<close>

definition well_formed :: "texture \<Rightarrow> bool" where
  "well_formed t =
     (components t \<in> {1, 2, 3, 4}
      \<and> (case pixel_formats (dtype t) of
            None \<Rightarrow> False
          | Some (fmts, ifmts, ty, csize) \<Rightarrow> component_size t = csize))"

definition ready :: "texture \<Rightarrow> device \<Rightarrow> bool" where
  "ready t d =
     (case (tex_format t, tex_type t, textures d (glo t)) of
        (Some fmt, Some ty, Some obj) \<Rightarrow>
          (case gt_image obj of
             None \<Rightarrow> False
           | Some im \<Rightarrow>
               int (im_width im) = width t \<and> int (im_height im) = height t
               \<and> int (im_layers im) = layers t
               \<and> int (pixel_bytes fmt ty) = component_size t * components t)
      | _ \<Rightarrow> False)"

definition image_dims :: "device \<Rightarrow> nat \<Rightarrow> (nat \<times> nat \<times> nat) option" where
  "image_dims d k =
     (case textures d k of
        None \<Rightarrow> None
      | Some obj \<Rightarrow> map_option (\<lambda>im. (im_width im, im_height im, im_layers im)) (gt_image obj))"

section \<open>What the device calls leave alone\<close>

text \<open>
  No call of the graphics library touches what the class reads from the context: the
  API variant, the collection mode, the limits, the default unit, the live context.
\<close>

lemma upd_bound_ctx [simp]:
  "gl_api (upd_bound tgt f d) = gl_api d"
  "gc_mode (upd_bound tgt f d) = gc_mode d"
  "MAX_SAMPLES (upd_bound tgt f d) = MAX_SAMPLES d"
  "MAX_TEXTURE_MAX_ANISOTROPY (upd_bound tgt f d) = MAX_TEXTURE_MAX_ANISOTROPY d"
  "default_texture_unit (upd_bound tgt f d) = default_texture_unit d"
  "current_context (upd_bound tgt f d) = current_context d"
  "stats_texture (upd_bound tgt f d) = stats_texture d"
  "active_texture (upd_bound tgt f d) = active_texture d"
  "texture_binding (upd_bound tgt f d) = texture_binding d"
  "pack_alignment (upd_bound tgt f d) = pack_alignment d"
  by (simp_all add: upd_bound_def split: option.splits)

lemma glTexParameteri_ctx [simp]:
  "gl_api (glTexParameteri tgt p v d) = gl_api d"
  "gc_mode (glTexParameteri tgt p v d) = gc_mode d"
  "MAX_SAMPLES (glTexParameteri tgt p v d) = MAX_SAMPLES d"
  "MAX_TEXTURE_MAX_ANISOTROPY (glTexParameteri tgt p v d) = MAX_TEXTURE_MAX_ANISOTROPY d"
  "default_texture_unit (glTexParameteri tgt p v d) = default_texture_unit d"
  "current_context (glTexParameteri tgt p v d) = current_context d"
  "stats_texture (glTexParameteri tgt p v d) = stats_texture d"
  "active_texture (glTexParameteri tgt p v d) = active_texture d"
  "texture_binding (glTexParameteri tgt p v d) = texture_binding d"
  "pack_alignment (glTexParameteri tgt p v d) = pack_alignment d"
  by (simp_all add: glTexParameteri_def)

lemma glTexParameterf_ctx [simp]:
  "gl_api (glTexParameterf tgt p x d) = gl_api d"
  "gc_mode (glTexParameterf tgt p x d) = gc_mode d"
  "MAX_SAMPLES (glTexParameterf tgt p x d) = MAX_SAMPLES d"
  "MAX_TEXTURE_MAX_ANISOTROPY (glTexParameterf tgt p x d) = MAX_TEXTURE_MAX_ANISOTROPY d"
  "default_texture_unit (glTexParameterf tgt p x d) = default_texture_unit d"
  "current_context (glTexParameterf tgt p x d) = current_context d"
  "stats_texture (glTexParameterf tgt p x d) = stats_texture d"
  by (simp_all add: glTexParameterf_def)

lemma set_image_ctx [simp]:
  "gl_api (set_image tgt ifmt w h l smp imm bs d) = gl_api d"
  "gc_mode (set_image tgt ifmt w h l smp imm bs d) = gc_mode d"
  "MAX_SAMPLES (set_image tgt ifmt w h l smp imm bs d) = MAX_SAMPLES d"
  "MAX_TEXTURE_MAX_ANISOTROPY (set_image tgt ifmt w h l smp imm bs d)
     = MAX_TEXTURE_MAX_ANISOTROPY d"
  "default_texture_unit (set_image tgt ifmt w h l smp imm bs d) = default_texture_unit d"
  "current_context (set_image tgt ifmt w h l smp imm bs d) = current_context d"
  "stats_texture (set_image tgt ifmt w h l smp imm bs d) = stats_texture d"
  "active_texture (set_image tgt ifmt w h l smp imm bs d) = active_texture d"
  "texture_binding (set_image tgt ifmt w h l smp imm bs d) = texture_binding d"
  "pack_alignment (set_image tgt ifmt w h l smp imm bs d) = pack_alignment d"
  by (simp_all add: set_image_def)

lemma glTexImage3D_ctx [simp]:
  "gl_api (glTexImage3D tgt lv ifmt w h l fmt ty data d) = gl_api d"
  "gc_mode (glTexImage3D tgt lv ifmt w h l fmt ty data d) = gc_mode d"
  "MAX_SAMPLES (glTexImage3D tgt lv ifmt w h l fmt ty data d) = MAX_SAMPLES d"
  "MAX_TEXTURE_MAX_ANISOTROPY (glTexImage3D tgt lv ifmt w h l fmt ty data d)
     = MAX_TEXTURE_MAX_ANISOTROPY d"
  "default_texture_unit (glTexImage3D tgt lv ifmt w h l fmt ty data d)
     = default_texture_unit d"
  "current_context (glTexImage3D tgt lv ifmt w h l fmt ty data d) = current_context d"
  "stats_texture (glTexImage3D tgt lv ifmt w h l fmt ty data d) = stats_texture d"
  "active_texture (glTexImage3D tgt lv ifmt w h l fmt ty data d) = active_texture d"
  "texture_binding (glTexImage3D tgt lv ifmt w h l fmt ty data d) = texture_binding d"
  by (simp_all add: glTexImage3D_def)

lemma glTexStorage3D_ctx [simp]:
  "gl_api (glTexStorage3D tgt lv ifmt w h l d) = gl_api d"
  "gc_mode (glTexStorage3D tgt lv ifmt w h l d) = gc_mode d"
  "MAX_SAMPLES (glTexStorage3D tgt lv ifmt w h l d) = MAX_SAMPLES d"
  "MAX_TEXTURE_MAX_ANISOTROPY (glTexStorage3D tgt lv ifmt w h l d)
     = MAX_TEXTURE_MAX_ANISOTROPY d"
  "default_texture_unit (glTexStorage3D tgt lv ifmt w h l d) = default_texture_unit d"
  "current_context (glTexStorage3D tgt lv ifmt w h l d) = current_context d"
  "stats_texture (glTexStorage3D tgt lv ifmt w h l d) = stats_texture d"
  "active_texture (glTexStorage3D tgt lv ifmt w h l d) = active_texture d"
  "texture_binding (glTexStorage3D tgt lv ifmt w h l d) = texture_binding d"
  by (simp_all add: glTexStorage3D_def)

lemma glTexImage3DMultisample_ctx [simp]:
  "gl_api (glTexImage3DMultisample tgt smp ifmt w h l d) = gl_api d"
  "gc_mode (glTexImage3DMultisample tgt smp ifmt w h l d) = gc_mode d"
  "MAX_SAMPLES (glTexImage3DMultisample tgt smp ifmt w h l d) = MAX_SAMPLES d"
  "MAX_TEXTURE_MAX_ANISOTROPY (glTexImage3DMultisample tgt smp ifmt w h l d)
     = MAX_TEXTURE_MAX_ANISOTROPY d"
  "default_texture_unit (glTexImage3DMultisample tgt smp ifmt w h l d)
     = default_texture_unit d"
  "current_context (glTexImage3DMultisample tgt smp ifmt w h l d) = current_context d"
  "stats_texture (glTexImage3DMultisample tgt smp ifmt w h l d) = stats_texture d"
  by (simp_all add: glTexImage3DMultisample_def)

lemma glCompressedTexImage3D_ctx [simp]:
  "gl_api (glCompressedTexImage3D tgt lv ifmt w h l sz data d) = gl_api d"
  "gc_mode (glCompressedTexImage3D tgt lv ifmt w h l sz data d) = gc_mode d"
  "MAX_SAMPLES (glCompressedTexImage3D tgt lv ifmt w h l sz data d) = MAX_SAMPLES d"
  "MAX_TEXTURE_MAX_ANISOTROPY (glCompressedTexImage3D tgt lv ifmt w h l sz data d)
     = MAX_TEXTURE_MAX_ANISOTROPY d"
  "default_texture_unit (glCompressedTexImage3D tgt lv ifmt w h l sz data d)
     = default_texture_unit d"
  "current_context (glCompressedTexImage3D tgt lv ifmt w h l sz data d) = current_context d"
  "stats_texture (glCompressedTexImage3D tgt lv ifmt w h l sz data d) = stats_texture d"
  by (simp_all add: glCompressedTexImage3D_def)

lemma glTexSubImage3D_ctx [simp]:
  "gl_api (glTexSubImage3D tgt lv x y l w h dp fmt ty data d) = gl_api d"
  "gc_mode (glTexSubImage3D tgt lv x y l w h dp fmt ty data d) = gc_mode d"
  "MAX_SAMPLES (glTexSubImage3D tgt lv x y l w h dp fmt ty data d) = MAX_SAMPLES d"
  "MAX_TEXTURE_MAX_ANISOTROPY (glTexSubImage3D tgt lv x y l w h dp fmt ty data d)
     = MAX_TEXTURE_MAX_ANISOTROPY d"
  "default_texture_unit (glTexSubImage3D tgt lv x y l w h dp fmt ty data d)
     = default_texture_unit d"
  "current_context (glTexSubImage3D tgt lv x y l w h dp fmt ty data d) = current_context d"
  "stats_texture (glTexSubImage3D tgt lv x y l w h dp fmt ty data d) = stats_texture d"
  "active_texture (glTexSubImage3D tgt lv x y l w h dp fmt ty data d) = active_texture d"
  "texture_binding (glTexSubImage3D tgt lv x y l w h dp fmt ty data d) = texture_binding d"
  "pack_alignment (glTexSubImage3D tgt lv x y l w h dp fmt ty data d) = pack_alignment d"
  by (simp_all add: glTexSubImage3D_def)

lemma glPixelStorei_ctx [simp]:
  "gl_api (glPixelStorei p v d) = gl_api d"
  "gc_mode (glPixelStorei p v d) = gc_mode d"
  "MAX_SAMPLES (glPixelStorei p v d) = MAX_SAMPLES d"
  "MAX_TEXTURE_MAX_ANISOTROPY (glPixelStorei p v d) = MAX_TEXTURE_MAX_ANISOTROPY d"
  "default_texture_unit (glPixelStorei p v d) = default_texture_unit d"
  "current_context (glPixelStorei p v d) = current_context d"
  "stats_texture (glPixelStorei p v d) = stats_texture d"
  "active_texture (glPixelStorei p v d) = active_texture d"
  "texture_binding (glPixelStorei p v d) = texture_binding d"
  "textures (glPixelStorei p v d) = textures d"
  by (simp_all add: glPixelStorei_def split: gl_pixel_store.splits)

lemma glBindBuffer_ctx [simp]:
  "gl_api (glBindBuffer b d) = gl_api d"
  "gc_mode (glBindBuffer b d) = gc_mode d"
  "MAX_SAMPLES (glBindBuffer b d) = MAX_SAMPLES d"
  "MAX_TEXTURE_MAX_ANISOTROPY (glBindBuffer b d) = MAX_TEXTURE_MAX_ANISOTROPY d"
  "default_texture_unit (glBindBuffer b d) = default_texture_unit d"
  "current_context (glBindBuffer b d) = current_context d"
  "stats_texture (glBindBuffer b d) = stats_texture d"
  by (simp_all add: glBindBuffer_def)

lemma bind_self_ctx [simp]:
  "gl_api (bind_self t d) = gl_api d"
  "gc_mode (bind_self t d) = gc_mode d"
  "MAX_SAMPLES (bind_self t d) = MAX_SAMPLES d"
  "MAX_TEXTURE_MAX_ANISOTROPY (bind_self t d) = MAX_TEXTURE_MAX_ANISOTROPY d"
  "default_texture_unit (bind_self t d) = default_texture_unit d"
  "current_context (bind_self t d) = current_context d"
  "stats_texture (bind_self t d) = stats_texture d"
  "active_texture (bind_self t d) = default_texture_unit d"
  "pack_alignment (bind_self t d) = pack_alignment d"
  by (simp_all add: bind_self_def glBindTexture_def glActiveTexture_def)

lemma bind_self_bound [simp]:
  "bound_name (tex_target t) (bind_self t d) = glo t"
  by (simp add: bind_self_def glBindTexture_def glActiveTexture_def bound_name_def)

section \<open>What the methods leave alone\<close>

lemma shape_update [simp]:
  "shape (t\<lparr>tex_type := a\<rparr>) = shape t"
  "shape (t\<lparr>component_size := b\<rparr>) = shape t"
  "shape (t\<lparr>tex_format := c\<rparr>) = shape t"
  "shape (t\<lparr>internal_format := e\<rparr>) = shape t"
  "shape (t\<lparr>compare_func := f\<rparr>) = shape t"
  "shape (t\<lparr>tex_filter := g\<rparr>) = shape t"
  "shape (t\<lparr>wrap_x := h\<rparr>) = shape t"
  "shape (t\<lparr>wrap_y := i\<rparr>) = shape t"
  "shape (t\<lparr>anisotropy := j\<rparr>) = shape t"
  "shape (t\<lparr>finalizer := k\<rparr>) = shape t"
  "shape (t\<lparr>alignment := l\<rparr>) = shape t"
  by (simp_all add: shape_def)

lemma ctx_of_gl [simp]:
  "ctx_of (upd_bound tgt f d) = ctx_of d"
  "ctx_of (glTexParameteri tgt p v d) = ctx_of d"
  "ctx_of (glTexParameterf tgt p x d) = ctx_of d"
  "ctx_of (set_image tgt ifmt w h l smp imm bs d) = ctx_of d"
  "ctx_of (glTexImage3D tgt lv ifmt w h l fmt ty data d) = ctx_of d"
  "ctx_of (glTexStorage3D tgt lv ifmt w h l d) = ctx_of d"
  "ctx_of (glTexImage3DMultisample tgt smp ifmt w h l d) = ctx_of d"
  "ctx_of (glCompressedTexImage3D tgt lv ifmt w h l sz cdata d) = ctx_of d"
  "ctx_of (glTexSubImage3D tgt lv x' y' l' w' h' dp fmt ty cdata d) = ctx_of d"
  "ctx_of (glPixelStorei pn n d) = ctx_of d"
  "ctx_of (glBindBuffer b d) = ctx_of d"
  "ctx_of (bind_self t d) = ctx_of d"
  "ctx_of (glBindTexture tgt name d) = ctx_of d"
  "ctx_of (glActiveTexture u d) = ctx_of d"
  "ctx_of (snd (glGenTextures d)) = ctx_of d"
  "ctx_of (stats_incr d) = ctx_of d"
  "ctx_of (stats_decr d) = ctx_of d"
  "ctx_of (glDeleteTextures name d) = ctx_of d"
  by (simp_all add: ctx_of_def glBindTexture_def glActiveTexture_def glGenTextures_def
        stats_incr_def stats_decr_def glDeleteTextures_def)

lemma write_tex_obj [simp]: "fst (snd (write_tex data lv vp t d)) = t"
  by (simp add: write_tex_def data_to_ctypes_def Let_def split: sum.splits prod.splits write_data.splits option.splits)

lemma write_tex_ctx [simp]: "ctx_of (snd (snd (write_tex data lv vp t d))) = ctx_of d"
  by (simp add: write_tex_def data_to_ctypes_def Let_def split: sum.splits prod.splits write_data.splits option.splits)

lemma set_compare_func_kept [simp]:
  "shape (fst (snd (set_compare_func v t d))) = shape t"
  "tex_format (fst (snd (set_compare_func v t d))) = tex_format t"
  "tex_type (fst (snd (set_compare_func v t d))) = tex_type t"
  "component_size (fst (snd (set_compare_func v t d))) = component_size t"
  "ctx_of (snd (snd (set_compare_func v t d))) = ctx_of d"
  by (simp_all add: set_compare_func_def split: option.splits)

lemma compare_func_setter_kept [simp]:
  "shape (fst (snd (compare_func_setter v t d))) = shape t"
  "tex_format (fst (snd (compare_func_setter v t d))) = tex_format t"
  "tex_type (fst (snd (compare_func_setter v t d))) = tex_type t"
  "component_size (fst (snd (compare_func_setter v t d))) = component_size t"
  "ctx_of (snd (snd (compare_func_setter v t d))) = ctx_of d"
  by (simp_all add: compare_func_setter_def split: pyobj.splits)

lemma texture_2d_kept [simp]:
  "shape (fst (snd (texture_2d data t d))) = shape t"
  "ctx_of (snd (snd (texture_2d data t d))) = ctx_of d"
  by (simp_all add: texture_2d_def Let_def split: option.splits sum.splits prod.splits)

lemma set_sampling_kept [simp]:
  "shape (fst (snd (set_sampling args t d))) = shape t"
  "tex_format (fst (snd (set_sampling args t d))) = tex_format t"
  "tex_type (fst (snd (set_sampling args t d))) = tex_type t"
  "component_size (fst (snd (set_sampling args t d))) = component_size t"
  "ctx_of (snd (snd (set_sampling args t d))) = ctx_of d"
  by (simp_all add: set_sampling_def then_res_def filter_setter_def wrap_x_setter_def wrap_y_setter_def Let_def split: option.splits sum.splits prod.splits)


lemma pixel_formats_Some:
  assumes "pixel_formats k = Some (fmts, ifmts, ty, cs)"
  shows "fmts = Format k" "int (type_size ty) = cs" "cs \<in> {1, 2, 4}"
  using assms by (auto simp add: pixel_formats_def split: if_splits)

lemma texture_2d_success:
  assumes "texture_2d data t d = (Inr (), t', d')"
  shows "\<exists>fmts ifmts ty.
           pixel_formats (dtype t) = Some (fmts, ifmts, ty, component_size t')
           \<and> tex_type t' = Some ty
           \<and> (\<not> depth t \<and> tex_target t \<noteq> GL_TEXTURE_2D_MULTISAMPLE_ARRAY
                \<longrightarrow> tex_format t' = Some (fmts (components t)))"
proof (cases "pixel_formats (dtype t)")
  case None
  with assms show ?thesis by (simp add: texture_2d_def)
next
  case (Some a)
  obtain fmts ifmts ty csize where a: "a = (fmts, ifmts, ty, csize)"
    by (cases a) auto
  have w: "\<And>bs t2 d2. write_tex (FromBytes bs) 0 None t2 d2 = (Inr (), t', d') \<Longrightarrow> t' = t2"
    using write_tex_obj by (metis fst_conv snd_conv)
  have c: "\<And>v t1 d1. compare_func_setter v t1 d1 = (Inr (), t', d')
              \<Longrightarrow> tex_type t' = tex_type t1 \<and> component_size t' = component_size t1"
    using compare_func_setter_kept by (metis fst_conv snd_conv)
  show ?thesis
    using assms unfolding texture_2d_def Some a
    by (auto simp add: Let_def split: option.splits sum.splits if_splits dest!: w c)
qed


lemma shapeD:
  assumes "shape a = shape b"
  shows "glo a = glo b" "width a = width b" "height a = height b" "layers a = layers b"
    "dtype a = dtype b" "tex_target a = tex_target b" "components a = components b"
    "depth a = depth b" "samples a = samples b" "immutable a = immutable b"
    "compressed a = compressed b" "compressed_data a = compressed_data b"
  using assms by (simp_all add: shape_def)

lemma ctx_ofD:
  assumes "ctx_of a = ctx_of b"
  shows "gl_api a = gl_api b" "gc_mode a = gc_mode b" "MAX_SAMPLES a = MAX_SAMPLES b"
    "MAX_TEXTURE_MAX_ANISOTROPY a = MAX_TEXTURE_MAX_ANISOTROPY b"
    "default_texture_unit a = default_texture_unit b" "current_context a = current_context b"
  using assms by (simp_all add: ctx_of_def)

lemma then_res_Inr:
  assumes "then_res m f = (Inr x, t, d)"
  obtains y t' d' where "m = (Inr y, t', d')" "f y t' d' = (Inr x, t, d)"
proof (cases m)
  case (fields r t' d')
  show ?thesis
  proof (cases r)
    case (Inl e)
    with fields assms show ?thesis by (simp add: then_res_def)
  next
    case (Inr y)
    with fields assms that show ?thesis by (simp add: then_res_def)
  qed
qed

lemma texture_2d_res:
  assumes "texture_2d data t d = (r, t', d')"
  shows "shape t' = shape t" "ctx_of d' = ctx_of d"
  using texture_2d_kept [of data t d] unfolding assms by simp_all

lemma set_sampling_res:
  assumes "set_sampling args t d = (r, t', d')"
  shows "shape t' = shape t" "tex_format t' = tex_format t" "tex_type t' = tex_type t"
    "component_size t' = component_size t" "ctx_of d' = ctx_of d"
  using set_sampling_kept [of args t d] unfolding assms by simp_all

text \<open>The object that \<^verbatim>\<open>__init__\<close> hands to \<^verbatim>\<open>_texture_2d\<close>.\<close>

lemma init_unfold:
  assumes "a_components args \<in> {1, 2, 3, 4}"
    and "\<not> (data_truthy (a_data args) \<and> 0 < samples (init_fields args d))"
    and "next_name d \<noteq> 0"
  shows "TextureArray_init args d =
     then_res
       (texture_2d (a_data args)
          ((init_fields args d)\<lparr>tex_target :=
              (if samples (init_fields args d) = 0 then GL_TEXTURE_2D_ARRAY
               else GL_TEXTURE_2D_MULTISAMPLE_ARRAY), glo := next_name d\<rparr>)
          (glBindTexture
             (if samples (init_fields args d) = 0 then GL_TEXTURE_2D_ARRAY
              else GL_TEXTURE_2D_MULTISAMPLE_ARRAY) (next_name d)
             (snd (glGenTextures (glActiveTexture (default_texture_unit d) d)))))
       (\<lambda>_ t3 d3.
          then_res
            (if samples t3 = 0 then set_sampling args t3 d3 else (Inr (), t3, d3))
            (\<lambda>_ t4 d4.
               (Inr (),
                (if gc_mode d4 = ''auto'' then t4\<lparr>finalizer := True\<rparr> else t4),
                stats_incr d4)))"
proof -
  have c: "components (init_fields args d) \<in> set [1, 2, 3, 4]"
    using assms(1) by (simp add: init_fields_def)
  have g: "fst (glGenTextures (glActiveTexture (default_texture_unit d) d)) = next_name d"
    by (simp add: glGenTextures_def glActiveTexture_def)
  have m: "(data_truthy (a_data args) \<and> 0 < samples (init_fields args d)) = False"
    using assms(2) by simp
  show ?thesis
    unfolding TextureArray_init_def Let_def
    using c assms(3) g by (simp add: split_beta m del: set_simps)
qed

lemma init_conditions:
  assumes "TextureArray_init args d = (Inr (), t, d1)"
  shows "a_components args \<in> {1, 2, 3, 4}"
    and "\<not> (data_truthy (a_data args) \<and> 0 < samples (init_fields args d))"
    and "next_name d \<noteq> 0"
proof -
  have c0: "components (init_fields args d) = a_components args"
    by (simp add: init_fields_def)
  show c: "a_components args \<in> {1, 2, 3, 4}"
  proof (rule ccontr)
    assume "\<not> ?thesis"
    then have "components (init_fields args d) \<notin> set [1, 2, 3, 4]" by (simp add: c0)
    then have "fst (TextureArray_init args d) = Inl ComponentsInvalid"
      unfolding TextureArray_init_def Let_def by (simp del: set_simps)
    with assms show False by simp
  qed
  then have c1: "components (init_fields args d) \<in> set [1, 2, 3, 4]" by (simp add: c0)
  show m: "\<not> (data_truthy (a_data args) \<and> 0 < samples (init_fields args d))"
  proof
    assume "data_truthy (a_data args) \<and> 0 < samples (init_fields args d)"
    then have "fst (TextureArray_init args d) = Inl MultisampleNotWritable"
      unfolding TextureArray_init_def Let_def using c1 by (simp del: set_simps)
    with assms show False by simp
  qed
  then have m': "(data_truthy (a_data args) \<and> 0 < samples (init_fields args d)) = False"
    by simp
  show "next_name d \<noteq> 0"
  proof
    assume z: "next_name d = 0"
    have g: "fst (glGenTextures (glActiveTexture (default_texture_unit d) d)) = 0"
      by (simp add: glGenTextures_def glActiveTexture_def z)
    have "fst (TextureArray_init args d) = Inl CannotCreateTexture"
      unfolding TextureArray_init_def Let_def using c1 g
      by (simp add: split_beta m' del: set_simps)
    with assms show False by simp
  qed
qed

lemma init_success:
  assumes "TextureArray_init args d = (Inr (), t, d1)"
  shows "glo t = next_name d"
    and "width t = fst (a_size args)"
    and "height t = fst (snd (a_size args))"
    and "layers t = snd (snd (a_size args))"
    and "dtype t = a_dtype args"
    and "components t = a_components args"
    and "depth t = a_depth args"
    and "samples t = py_min (py_max 0 (a_samples args)) (MAX_SAMPLES d)"
    and "immutable t = a_immutable args"
    and "compressed t = a_compressed args"
    and "tex_target t = (if samples t = 0 then GL_TEXTURE_2D_ARRAY
                         else GL_TEXTURE_2D_MULTISAMPLE_ARRAY)"
    and "ctx_of d1 = ctx_of d"
    and "\<exists>fmts ifmts ty.
           pixel_formats (a_dtype args) = Some (fmts, ifmts, ty, component_size t)
           \<and> tex_type t = Some ty
           \<and> (\<not> depth t \<and> samples t = 0 \<longrightarrow> tex_format t = Some (fmts (components t)))"
proof -
  define t2 where "t2 = (init_fields args d)\<lparr>tex_target :=
              (if samples (init_fields args d) = 0 then GL_TEXTURE_2D_ARRAY
               else GL_TEXTURE_2D_MULTISAMPLE_ARRAY), glo := next_name d\<rparr>"
  define d2 where "d2 = glBindTexture
             (if samples (init_fields args d) = 0 then GL_TEXTURE_2D_ARRAY
              else GL_TEXTURE_2D_MULTISAMPLE_ARRAY) (next_name d)
             (snd (glGenTextures (glActiveTexture (default_texture_unit d) d)))"
  note u = init_unfold [OF init_conditions [OF assms], folded t2_def d2_def]
  from assms [unfolded u] obtain y3 t3 d3 where
    tx: "texture_2d (a_data args) t2 d2 = (Inr y3, t3, d3)"
    and r3: "then_res
            (if samples t3 = 0 then set_sampling args t3 d3 else (Inr (), t3, d3))
            (\<lambda>_ t4 d4.
               (Inr (),
                (if gc_mode d4 = ''auto'' then t4\<lparr>finalizer := True\<rparr> else t4),
                stats_incr d4)) = (Inr (), t, d1)"
    by (rule then_res_Inr)
  from r3 obtain y4 t4 d4 where
    sm: "(if samples t3 = 0 then set_sampling args t3 d3 else (Inr (), t3, d3))
           = (Inr y4, t4, d4)"
    and fin: "(Inr (), (if gc_mode d4 = ''auto'' then t4\<lparr>finalizer := True\<rparr> else t4),
                stats_incr d4) = (Inr (), t, d1)"
    by (auto elim: then_res_Inr)
  have t: "t = (if gc_mode d4 = ''auto'' then t4\<lparr>finalizer := True\<rparr> else t4)"
    and d1: "d1 = stats_incr d4"
    using fin by simp_all
  have s3: "shape t3 = shape t2" and c3: "ctx_of d3 = ctx_of d2"
    using texture_2d_res [OF tx] by simp_all
  have s4: "shape t4 = shape t3" and c4: "ctx_of d4 = ctx_of d3"
    and f4: "tex_format t4 = tex_format t3" "tex_type t4 = tex_type t3"
            "component_size t4 = component_size t3"
  proof -
    show "shape t4 = shape t3"
      using sm set_sampling_res(1) [of args t3 d3] by (auto split: if_splits)
    show "ctx_of d4 = ctx_of d3"
      using sm set_sampling_res(5) [of args t3 d3] by (auto split: if_splits)
    show "tex_format t4 = tex_format t3"
      using sm set_sampling_res(2) [of args t3 d3] by (auto split: if_splits)
    show "tex_type t4 = tex_type t3"
      using sm set_sampling_res(3) [of args t3 d3] by (auto split: if_splits)
    show "component_size t4 = component_size t3"
      using sm set_sampling_res(4) [of args t3 d3] by (auto split: if_splits)
  qed
  have st: "shape t = shape t4" and ft: "tex_format t = tex_format t4"
    "tex_type t = tex_type t4" "component_size t = component_size t4"
    using t by simp_all
  have e: "shape t = shape t2" using st s4 s3 by simp
  note f = shapeD [OF e]
  show "glo t = next_name d" using f(1) by (simp add: t2_def)
  show "width t = fst (a_size args)" using f(2) by (simp add: t2_def init_fields_def)
  show "height t = fst (snd (a_size args))" using f(3) by (simp add: t2_def init_fields_def)
  show "layers t = snd (snd (a_size args))" using f(4) by (simp add: t2_def init_fields_def)
  show "dtype t = a_dtype args" using f(5) by (simp add: t2_def init_fields_def)
  show "components t = a_components args" using f(7) by (simp add: t2_def init_fields_def)
  show "depth t = a_depth args" using f(8) by (simp add: t2_def init_fields_def)
  show sm': "samples t = py_min (py_max 0 (a_samples args)) (MAX_SAMPLES d)"
    using f(9) by (simp add: t2_def init_fields_def)
  show "immutable t = a_immutable args" using f(10) by (simp add: t2_def init_fields_def)
  show "compressed t = a_compressed args" using f(11) by (simp add: t2_def init_fields_def)
  show tg: "tex_target t = (if samples t = 0 then GL_TEXTURE_2D_ARRAY
                         else GL_TEXTURE_2D_MULTISAMPLE_ARRAY)"
    using f(6) sm' by (simp add: t2_def init_fields_def)
  show "ctx_of d1 = ctx_of d"
    using d1 c4 c3 by (simp add: d2_def)
  from texture_2d_success [of "a_data args" t2 d2 t3 d3] tx obtain fmts ifmts ty where
    p: "pixel_formats (dtype t2) = Some (fmts, ifmts, ty, component_size t3)"
    and ty: "tex_type t3 = Some ty"
    and fm: "\<not> depth t2 \<and> tex_target t2 \<noteq> GL_TEXTURE_2D_MULTISAMPLE_ARRAY
                \<longrightarrow> tex_format t3 = Some (fmts (components t2))"
    by auto
  have "pixel_formats (a_dtype args) = Some (fmts, ifmts, ty, component_size t)"
    using p by (simp add: t2_def init_fields_def ft f4)
  moreover have "tex_type t = Some ty" using ty by (simp add: ft f4)
  moreover have "\<not> depth t \<and> samples t = 0 \<longrightarrow> tex_format t = Some (fmts (components t))"
    using fm tg f(6,7,8) by (simp add: ft f4)
  ultimately show "\<exists>fmts ifmts ty.
           pixel_formats (a_dtype args) = Some (fmts, ifmts, ty, component_size t)
           \<and> tex_type t = Some ty
           \<and> (\<not> depth t \<and> samples t = 0 \<longrightarrow> tex_format t = Some (fmts (components t)))"
    by blast
qed

lemma glGetTexImage_length:
  "length (glGetTexImage tgt level fmt ty buf dv) = length buf"
  by (simp add: glGetTexImage_def split: option.splits)

section \<open>The example states\<close>

lemma init_args0:
  "fst (TextureArray_init (args0\<lparr>a_immutable := imm\<rparr>) dev0) = Inr ()"
  "fst (snd (TextureArray_init (args0\<lparr>a_immutable := imm\<rparr>) dev0)) =
      \<lparr>glo = 1, width = 2, height = 1, layers = 2, dtype = ''f1'',
       tex_target = GL_TEXTURE_2D_ARRAY, components = 4, alignment = 1, depth = False,
       compare_func = None, tex_format = Some (Format ''f1'' 4),
       internal_format = Some (InternalFormat ''f1'' 4),
       tex_type = Some GL_UNSIGNED_BYTE, component_size = 1, samples = 0,
       tex_filter = [GL_LINEAR, GL_LINEAR], wrap_x = GL_REPEAT, wrap_y = GL_REPEAT,
       anisotropy = 1, immutable = imm, compressed = False, compressed_data = False,
       finalizer = False\<rparr>"
   apply (simp_all add: TextureArray_init_def args0_def default_args_def init_fields_def
      dev0_def py_min_def py_max_def data_truthy_def Let_def glActiveTexture_def
      glGenTextures_def glBindTexture_def)
   apply (simp_all add: texture_2d_def pixel_formats_def Let_def)
   apply (simp_all add: then_res_def set_sampling_def filter_setter_def wrap_x_setter_def
      wrap_y_setter_def split: prod.splits)
  done

lemma tex0_eq:
  "tex0 =
      \<lparr>glo = 1, width = 2, height = 1, layers = 2, dtype = ''f1'',
       tex_target = GL_TEXTURE_2D_ARRAY, components = 4, alignment = 1, depth = False,
       compare_func = None, tex_format = Some (Format ''f1'' 4),
       internal_format = Some (InternalFormat ''f1'' 4),
       tex_type = Some GL_UNSIGNED_BYTE, component_size = 1, samples = 0,
       tex_filter = [GL_LINEAR, GL_LINEAR], wrap_x = GL_REPEAT, wrap_y = GL_REPEAT,
       anisotropy = 1, immutable = False, compressed = False, compressed_data = False,
       finalizer = False\<rparr>"
  using init_args0(2) [of False] by (simp add: tex0_def args0_def default_args_def)

lemma tex_imm_eq:
  "tex_imm =
      \<lparr>glo = 1, width = 2, height = 1, layers = 2, dtype = ''f1'',
       tex_target = GL_TEXTURE_2D_ARRAY, components = 4, alignment = 1, depth = False,
       compare_func = None, tex_format = Some (Format ''f1'' 4),
       internal_format = Some (InternalFormat ''f1'' 4),
       tex_type = Some GL_UNSIGNED_BYTE, component_size = 1, samples = 0,
       tex_filter = [GL_LINEAR, GL_LINEAR], wrap_x = GL_REPEAT, wrap_y = GL_REPEAT,
       anisotropy = 1, immutable = True, compressed = False, compressed_data = False,
       finalizer = False\<rparr>"
  using init_args0(2) [of True] by (simp add: tex_imm_def)

lemma dev1_ctx:
  "gl_api dev1 = ''gl''"
  "current_context dev1"
  "stats_texture dev1 = 1"
  "default_texture_unit dev1 = 0"
  "pack_alignment dev1 = 1"
  unfolding dev1_def
      apply (simp_all add: TextureArray_init_def args0_def default_args_def init_fields_def
      dev0_def py_min_def py_max_def data_truthy_def Let_def glActiveTexture_def
      glGenTextures_def glBindTexture_def)
      apply (simp_all add: texture_2d_def pixel_formats_def Let_def)
      apply (simp_all add: then_res_def set_sampling_def filter_setter_def wrap_x_setter_def
      wrap_y_setter_def stats_incr_def split: prod.splits)
   apply (simp_all add: glTexImage3D_def glPixelStorei_def)
  done

lemma init_gles:
  "fst (TextureArray_init args0 (dev0\<lparr>gl_api := api\<rparr>)) = Inr ()"
   apply (simp_all add: TextureArray_init_def args0_def default_args_def init_fields_def
      dev0_def py_min_def py_max_def data_truthy_def Let_def glActiveTexture_def
      glGenTextures_def glBindTexture_def)
   apply (simp_all add: texture_2d_def pixel_formats_def Let_def)
   apply (simp_all add: then_res_def set_sampling_def filter_setter_def wrap_x_setter_def
      wrap_y_setter_def split: prod.splits)
  done

lemma init_args0_eq: "TextureArray_init args0 dev0 = (Inr (), tex0, dev1)"
  using init_args0(1) [of False]
  by (simp add: tex0_def dev1_def prod_eq_iff args0_def default_args_def)

lemma dev1_texture:
  "image_dims dev1 1 = Some (2, 1, 2)"
  unfolding dev1_def image_dims_def
      apply (simp add: TextureArray_init_def args0_def default_args_def init_fields_def
      dev0_def py_min_def py_max_def data_truthy_def Let_def glActiveTexture_def
      glGenTextures_def glBindTexture_def)
      apply (simp add: texture_2d_def pixel_formats_def Let_def)
      apply (simp add: glTexImage3D_def glPixelStorei_def set_image_def upd_bound_def
         bound_name_def is_immutable_def)
      apply (simp add: then_res_def set_sampling_def filter_setter_def wrap_x_setter_def
      wrap_y_setter_def stats_incr_def split: prod.splits)
  apply (simp add: bind_self_def glActiveTexture_def glBindTexture_def)
  apply (simp add: glTexParameteri_def upd_bound_def bound_name_def)
  done


lemma ready0: "ready tex0 dev1"
  using dev1_texture
  by (auto simp add: ready_def image_dims_def tex0_eq pixel_bytes_def split: option.splits)


section \<open>Resize of an immutable texture\<close>

text \<open>
  C6. On a texture with immutable storage \<^verbatim>\<open>resize\<close> raises the ValueError that the
  specification calls a ConfigurationError, whatever the new size; it does so before
  any device call, so the object (its dimensions and handle) and the device (its
  storage) are as they were.
\<close>

theorem resize_immutable_fails:
  "immutable t \<Longrightarrow>
     resize sz t d = (Inl ImmutableResize, t, d) \<and> is_ConfigurationError ImmutableResize"
  by (simp add: resize_def)

theorem resize_immutable_fails_witness:
  "immutable tex_imm
   \<and> resize (4, 4) tex_imm dev0 = (Inl ImmutableResize, tex_imm, dev0)
   \<and> is_ConfigurationError ImmutableResize"
  using resize_immutable_fails [of tex_imm "(4, 4)" dev0] by (simp add: tex_imm_eq)

section \<open>The compare function of a texture without depth\<close>

text \<open>
  C8. On a texture that was not created as a depth texture the compare function
  setter raises its ConfigurationError for every value, a valid key and \<^verbatim>\<open>None\<close>
  included, and changes nothing.
\<close>

theorem compare_func_non_depth_fails:
  "\<not> depth t \<Longrightarrow>
     compare_func_setter v t d = (Inl CompareFuncNotDepth, t, d)
     \<and> is_ConfigurationError CompareFuncNotDepth"
  by (simp add: compare_func_setter_def)

theorem compare_func_non_depth_fails_witness:
  "\<not> depth tex0
   \<and> compare_func_setter (PyStr ''<='') tex0 dev0 = (Inl CompareFuncNotDepth, tex0, dev0)
   \<and> is_ConfigurationError CompareFuncNotDepth"
  using compare_func_non_depth_fails [of tex0 "PyStr ''<=''" dev0] by (simp add: tex0_eq)

section \<open>Anisotropy\<close>

text \<open>
  C9. The anisotropy setter clamps. On a device whose maximum is at least 1.0 (the
  interval of the claim is not empty), a value above the maximum stores the maximum,
  a value below 1.0 stores 1.0, and a value in between is stored as it is. The setter
  never fails.
\<close>

theorem anisotropy_setter_clamps:
  assumes "1 \<le> MAX_TEXTURE_MAX_ANISOTROPY d"
  shows "fst (anisotropy_setter v t d) = Inr ()
     \<and> (MAX_TEXTURE_MAX_ANISOTROPY d < v \<longrightarrow>
          anisotropy (fst (snd (anisotropy_setter v t d))) = MAX_TEXTURE_MAX_ANISOTROPY d)
     \<and> (v < 1 \<longrightarrow> anisotropy (fst (snd (anisotropy_setter v t d))) = 1)
     \<and> (1 \<le> v \<and> v \<le> MAX_TEXTURE_MAX_ANISOTROPY d \<longrightarrow>
          anisotropy (fst (snd (anisotropy_setter v t d))) = v)"
  using assms by (auto simp add: anisotropy_setter_def py_min_def py_max_def Let_def)

theorem anisotropy_setter_clamps_witness:
  "1 \<le> MAX_TEXTURE_MAX_ANISOTROPY dev0
   \<and> MAX_TEXTURE_MAX_ANISOTROPY dev0 < 32
   \<and> anisotropy (fst (snd (anisotropy_setter 32 tex0 dev0))) = 16
   \<and> anisotropy (fst (snd (anisotropy_setter (1 / 2) tex0 dev0))) = 1
   \<and> anisotropy (fst (snd (anisotropy_setter 8 tex0 dev0))) = 8"
  using anisotropy_setter_clamps [of dev0 32 tex0]
    anisotropy_setter_clamps [of dev0 "1 / 2" tex0]
    anisotropy_setter_clamps [of dev0 8 tex0]
  by (simp add: dev0_def)

section \<open>Swizzle\<close>

lemma char_eq_nat: "(a = b) = ((of_char a :: nat) = of_char b)"
  by simp

lemma key_single:
  "swizzle_str_to_enum [x] \<noteq> None \<longleftrightarrow> (of_char x :: nat) \<in> {82, 71, 66, 65, 48, 49}"
  by (simp add: swizzle_str_to_enum_def char_eq_nat [of x])

text \<open>The keys that a character reaches after \<^verbatim>\<open>upper\<close>.\<close>

lemma upper_key:
  "swizzle_str_to_enum (upper c) \<noteq> None \<longleftrightarrow> c \<in> set ''RGBA01rgba''"
proof -
  define n where "n = (of_char c :: nat)"
  have lt: "n < 256" by (simp add: n_def)
  have mem: "c \<in> set ''RGBA01rgba'' \<longleftrightarrow> n \<in> {82, 71, 66, 65, 48, 49, 114, 103, 98, 97}"
    by (simp add: char_eq_nat [of c] n_def)
  show ?thesis
  proof (cases "97 \<le> n \<and> n \<le> 122")
    case True
    then have u: "upper c = [char_of (n - 32)]" by (simp add: upper_def n_def)
    have "(n - 32) mod 256 = n - 32"
      by (rule mod_less) (use lt in arith)
    then have o: "(of_char (char_of (n - 32)) :: nat) = n - 32"
      by (simp only: of_char_of)
    have "swizzle_str_to_enum (upper c) \<noteq> None \<longleftrightarrow> n - 32 \<in> {82, 71, 66, 65, 48, 49}"
      unfolding u key_single o ..
    also have "\<dots> \<longleftrightarrow> n \<in> {82, 71, 66, 65, 48, 49, 114, 103, 98, 97}"
      using True by auto
    finally show ?thesis unfolding mem .
  next
    case False
    then have u: "upper c = [c]" by (auto simp add: upper_def Let_def n_def)
    have "swizzle_str_to_enum (upper c) \<noteq> None \<longleftrightarrow> n \<in> {82, 71, 66, 65, 48, 49}"
      unfolding u key_single n_def ..
    also have "\<dots> \<longleftrightarrow> n \<in> {82, 71, 66, 65, 48, 49, 114, 103, 98, 97}"
      using False by auto
    finally show ?thesis unfolding mem .
  qed
qed

lemma swizzle_enums_None:
  "swizzle_enums s = None \<longleftrightarrow> \<not> list_all (\<lambda>c. c \<in> set ''RGBA01rgba'') s"
proof (induction s)
  case Nil
  then show ?case by simp
next
  case (Cons c cs)
  show ?case
  proof (cases "swizzle_str_to_enum (upper c)")
    case None
    then have "c \<notin> set ''RGBA01rgba''" using upper_key [of c] by blast
    with None show ?thesis by simp
  next
    case (Some e)
    then have "c \<in> set ''RGBA01rgba''" using upper_key [of c] by blast
    with Some Cons.IH show ?thesis by simp
  qed
qed

text \<open>
  C7. For every value that is not a string of four characters from R, G, B, A, 0, 1
  (in either case) the swizzle setter raises a ConfigurationError, and the object and
  the device, with the swizzle parameters it holds, are unchanged.
\<close>

theorem swizzle_setter_rejects:
  assumes "\<not> valid_swizzle v"
  shows "\<exists>e. swizzle_setter v t d = (Inl e, t, d) \<and> is_ConfigurationError e"
proof (cases v)
  case (PyStr s)
  show ?thesis
  proof (cases "length s = 4")
    case True
    with assms PyStr have "swizzle_enums s = None"
      by (simp add: valid_swizzle_def swizzle_enums_None)
    with True PyStr show ?thesis by (simp add: swizzle_setter_def)
  next
    case False
    with PyStr show ?thesis by (simp add: swizzle_setter_def)
  qed
qed (simp_all add: swizzle_setter_def)

theorem swizzle_setter_rejects_witness:
  "\<not> valid_swizzle (PyStr ''RGX1'')
   \<and> (\<exists>e. swizzle_setter (PyStr ''RGX1'') tex0 dev1 = (Inl e, tex0, dev1)
          \<and> is_ConfigurationError e)"
  using swizzle_setter_rejects [of "PyStr ''RGX1''" tex0 dev1]
  by (simp add: valid_swizzle_def)

section \<open>Deletion\<close>

text \<open>
  C1. What \<^verbatim>\<open>delete\<close> does when it is called twice while a context is current: no
  call raises and the handle is 0 after the first call, but \<^verbatim>\<open>delete_glo\<close> guards only
  the device call with the handle, not the counter, so the counter goes down by two.
\<close>

theorem delete_twice_decrements_twice:
  assumes "current_context d"
  shows "fst (delete t d) = Inr ()
     \<and> glo (fst (snd (delete t d))) = 0
     \<and> fst (delete (fst (snd (delete t d))) (snd (snd (delete t d)))) = Inr ()
     \<and> glo (fst (snd (delete (fst (snd (delete t d))) (snd (snd (delete t d)))))) = 0
     \<and> stats_texture (snd (snd (delete (fst (snd (delete t d))) (snd (snd (delete t d))))))
         = stats_texture d - 2"
  using assms
  by (simp add: delete_def delete_glo_def stats_decr_def glDeleteTextures_def)

theorem delete_twice_decrements_twice_witness:
  "current_context dev1
   \<and> stats_texture dev1 = 1
   \<and> fst (delete tex0 dev1) = Inr ()
   \<and> fst (delete (fst (snd (delete tex0 dev1))) (snd (snd (delete tex0 dev1)))) = Inr ()
   \<and> stats_texture
        (snd (snd (delete (fst (snd (delete tex0 dev1))) (snd (snd (delete tex0 dev1))))))
       = - 1"
  using delete_twice_decrements_twice [of dev1 tex0] by (simp add: dev1_ctx)

section \<open>Creation with data and samples\<close>

text \<open>
  C2, as the code has it. When data that is not empty is supplied and the sample count
  is positive after clamping to the device maximum (the requested count and the
  maximum are both positive), \<^verbatim>\<open>__init__\<close> raises a ConfigurationError before any
  device call: the device is unchanged. The error is the one about multisampled
  textures when the component count is valid, and the one about components otherwise.
\<close>

theorem init_multisample_data_fails:
  assumes "a_data args = Some bs" and "bs \<noteq> []"
    and "0 < a_samples args" and "0 < MAX_SAMPLES d"
  shows "\<exists>e t. TextureArray_init args d = (Inl e, t, d) \<and> is_ConfigurationError e
           \<and> e = (if a_components args \<in> {1, 2, 3, 4} then MultisampleNotWritable
                   else ComponentsInvalid)"
proof -
  have s: "0 < samples (init_fields args d)"
    using assms(3,4) by (simp add: init_fields_def py_min_def py_max_def)
  have c0: "components (init_fields args d) = a_components args"
    by (simp add: init_fields_def)
  have dt: "data_truthy (a_data args)" using assms(1,2) by (simp add: data_truthy_def)
  show ?thesis
  proof (cases "a_components args \<in> {1, 2, 3, 4}")
    case True
    then have "components (init_fields args d) \<in> set [1, 2, 3, 4]" by (simp add: c0)
    then have "TextureArray_init args d = (Inl MultisampleNotWritable, init_fields args d, d)"
      unfolding TextureArray_init_def Let_def using s dt by (simp del: set_simps)
    with True show ?thesis by simp
  next
    case False
    then have "components (init_fields args d) \<notin> set [1, 2, 3, 4]" by (simp add: c0)
    then have "TextureArray_init args d = (Inl ComponentsInvalid, init_fields args d, d)"
      unfolding TextureArray_init_def Let_def by (simp del: set_simps)
    with False show ?thesis by simp
  qed
qed

theorem init_multisample_data_fails_witness:
  "a_data (args0\<lparr>a_samples := 4, a_data := Some [1]\<rparr>) = Some [1] \<and> [1 :: byte] \<noteq> []
   \<and> 0 < a_samples (args0\<lparr>a_samples := 4, a_data := Some [1]\<rparr>) \<and> 0 < MAX_SAMPLES dev0
   \<and> (\<exists>t. TextureArray_init (args0\<lparr>a_samples := 4, a_data := Some [1]\<rparr>) dev0
              = (Inl MultisampleNotWritable, t, dev0))"
  using init_multisample_data_fails [of "args0\<lparr>a_samples := 4, a_data := Some [1]\<rparr>" "[1]" dev0]
  by (simp add: args0_def default_args_def dev0_def)

text \<open>
  The claim as stated fails where the device maximum clamps the sample count to 0
  (the texture is created as a plain array texture, with the data), and for an empty
  byte string, which \<^verbatim>\<open>if data\<close> takes for no data: creation goes on to the device,
  and succeeds or ends in the data size error.
\<close>

lemma init_clamped:
  "fst (TextureArray_init
          ((default_args (1, 1, 1))\<lparr>a_samples := 4, a_data := Some [1, 2, 3, 4]\<rparr>)
          (dev0\<lparr>MAX_SAMPLES := 0\<rparr>)) = Inr ()"
  apply (simp add: TextureArray_init_def default_args_def init_fields_def
      dev0_def py_min_def py_max_def data_truthy_def Let_def glActiveTexture_def
      glGenTextures_def glBindTexture_def)
  apply (simp add: texture_2d_def pixel_formats_def Let_def data_to_ctypes_def
      validate_data_size_def)
  apply (simp add: then_res_def set_sampling_def filter_setter_def wrap_x_setter_def
      wrap_y_setter_def split: prod.splits)
  done

lemma init_empty_data:
  "fst (TextureArray_init
          ((default_args (1, 1, 1))\<lparr>a_samples := 4, a_data := Some [], a_compressed := True\<rparr>)
          dev0) = Inr ()"
  "fst (TextureArray_init
          ((default_args (1, 1, 1))\<lparr>a_samples := 4, a_data := Some []\<rparr>)
          dev0) = Inl DataSizeExpected"
   apply (simp_all add: TextureArray_init_def default_args_def init_fields_def
      dev0_def py_min_def py_max_def data_truthy_def Let_def glActiveTexture_def
      glGenTextures_def glBindTexture_def)
   apply (simp_all add: texture_2d_def pixel_formats_def Let_def data_to_ctypes_def
      validate_data_size_def)
   apply (simp_all add: then_res_def)
  done

theorem init_multisample_data_counterexample:
  "fst (TextureArray_init
          ((default_args (1, 1, 1))\<lparr>a_samples := 4, a_data := Some [1, 2, 3, 4]\<rparr>)
          (dev0\<lparr>MAX_SAMPLES := 0\<rparr>)) = Inr ()
   \<and> fst (TextureArray_init
          ((default_args (1, 1, 1))\<lparr>a_samples := 4, a_data := Some [], a_compressed := True\<rparr>)
          dev0) = Inr ()
   \<and> fst (TextureArray_init
          ((default_args (1, 1, 1))\<lparr>a_samples := 4, a_data := Some []\<rparr>)
          dev0) = Inl DataSizeExpected
   \<and> \<not> is_ConfigurationError DataSizeExpected"
  using init_clamped init_empty_data by simp

section \<open>Reading a fresh texture\<close>

lemma read_after_init:
  assumes init: "TextureArray_init args d = (Inr (), t, d1)"
    and smp: "samples t = 0"
    and dep: "\<not> depth t"
    and api: "gl_api d = ''gl''"
    and sz: "a_size args = (w, h, l)" "0 \<le> w" "0 \<le> h" "0 \<le> l"
  shows "\<exists>bs d2 fmts ifmts ty csize.
           a_components args \<in> {1, 2, 3, 4}
           \<and> pixel_formats (a_dtype args) = Some (fmts, ifmts, ty, csize)
           \<and> read level align t d1 = (Inr bs, t, d2)
           \<and> int (length bs) = w * h * l * csize * a_components args"
proof -
  note s = init_success [OF init]
  have comps: "a_components args \<in> {1, 2, 3, 4}" by (rule init_conditions(1) [OF init])
  have api1: "gl_api d1 = ''gl''"
    using ctx_ofD(1) [OF s(12)] api by simp
  from s(13) smp dep obtain fmts ifmts ty where
    p: "pixel_formats (a_dtype args) = Some (fmts, ifmts, ty, component_size t)"
    and ty: "tex_type t = Some ty" and fm: "tex_format t = Some (fmts (components t))"
    by blast
  have cs: "0 \<le> component_size t" using pixel_formats_Some(3) [OF p] by auto
  define n where "n = width t * height t * layers t * component_size t * components t"
  have n: "n = w * h * l * component_size t * a_components args"
    using s(2,3,4,6) sz by (simp add: n_def)
  have n0: "0 \<le> n" using sz cs comps unfolding n by auto
  have "read level align t d1 =
          (Inr (glGetTexImage (tex_target t) level (fmts (components t)) ty
                  (replicate (nat n) 0)
                  (glPixelStorei GL_PACK_ALIGNMENT align (bind_self t d1))),
           t, glPixelStorei GL_PACK_ALIGNMENT align (bind_self t d1))"
    using smp api1 ty fm n0 by (simp add: read_def Let_def n_def)
  then show ?thesis using comps p n n0 by (simp add: glGetTexImage_length)
qed

text \<open>
  C3, as the code has it. After a successful \<^verbatim>\<open>__init__\<close> of a texture that is not
  multisampled and not a depth texture, on a device of the full API variant and with
  dimensions that are not negative, \<^verbatim>\<open>read\<close> returns (for every level and alignment)
  a byte string of length width * height * layers * component size * components; the
  component count is one of 1 to 4 and the element kind is in the table.
\<close>

theorem read_fresh_length:
  assumes "TextureArray_init args d = (Inr (), t, d1)"
    and "samples t = 0"
    and "\<not> depth t"
    and "gl_api d = ''gl''"
    and "a_size args = (w, h, l)" and "0 \<le> w" and "0 \<le> h" and "0 \<le> l"
  shows "\<exists>bs d2 fmts ifmts ty csize.
           a_components args \<in> {1, 2, 3, 4}
           \<and> pixel_formats (a_dtype args) = Some (fmts, ifmts, ty, csize)
           \<and> read level align t d1 = (Inr bs, t, d2)
           \<and> int (length bs) = w * h * l * csize * a_components args"
  using assms by (rule read_after_init)

theorem read_fresh_length_witness:
  "TextureArray_init args0 dev0 = (Inr (), tex0, dev1)
   \<and> samples tex0 = 0 \<and> \<not> depth tex0 \<and> gl_api dev0 = ''gl'' \<and> a_size args0 = (2, 1, 2)
   \<and> (\<exists>bs d2 fmts ifmts ty csize.
           a_components args0 \<in> {1, 2, 3, 4}
           \<and> pixel_formats (a_dtype args0) = Some (fmts, ifmts, ty, csize)
           \<and> read 0 1 tex0 dev1 = (Inr bs, tex0, d2)
           \<and> int (length bs) = 2 * 1 * 2 * csize * a_components args0)"
  using read_fresh_length [of args0 dev0 tex0 dev1 2 1 2 0 1] init_args0_eq
  by (simp add: tex0_eq dev0_def args0_def default_args_def)

text \<open>
  The claim as stated fails on the restricted API variant: the texture is created,
  and \<^verbatim>\<open>read\<close> raises.
\<close>

theorem read_fresh_gles_counterexample:
  "fst (TextureArray_init args0 (dev0\<lparr>gl_api := ''gles''\<rparr>)) = Inr ()
   \<and> samples (fst (snd (TextureArray_init args0 (dev0\<lparr>gl_api := ''gles''\<rparr>)))) = 0
   \<and> a_components args0 = 4 \<and> a_dtype args0 = ''f1''
   \<and> fst (read 0 1 (fst (snd (TextureArray_init args0 (dev0\<lparr>gl_api := ''gles''\<rparr>))))
                    (snd (snd (TextureArray_init args0 (dev0\<lparr>gl_api := ''gles''\<rparr>)))))
       = Inl GlesRead"
proof -
  obtain t d1 where e: "TextureArray_init args0 (dev0\<lparr>gl_api := ''gles''\<rparr>) = (Inr (), t, d1)"
    using init_gles [of "''gles''"] by (metis prod.collapse)
  have s: "samples t = 0"
    using init_success(8) [OF e] by (simp add: args0_def default_args_def dev0_def py_min_def py_max_def)
  have a: "gl_api d1 = ''gles''"
    using ctx_ofD(1) [OF init_success(12) [OF e]] by simp
  show ?thesis unfolding e using s a
    by (simp add: read_def args0_def default_args_def)
qed

section \<open>The viewport of write\<close>

lemma viewport_box_bad:
  assumes "vp \<noteq> []" "length vp \<noteq> 5"
  shows "viewport_box t (Some vp) = Inl ViewportLength"
  using assms by (auto simp add: viewport_box_def split: list.splits)

text \<open>
  C5, as the code has it. For every viewport that is not empty and not of length 5,
  \<^verbatim>\<open>write\<close> raises before any device call and leaves the object and the device as
  they were; on a texture that is not multisampled the error is the viewport
  ConfigurationError (on a multisampled one the multisample check comes first). An
  empty viewport is taken for an omitted one.
\<close>

theorem write_viewport_arity:
  assumes "vp \<noteq> []" and "length vp \<noteq> 5"
  shows "write_tex data level (Some vp) t d
           = (Inl (if 0 < samples t then MultisampleWrite else ViewportLength), t, d)
         \<and> is_ConfigurationError ViewportLength
         \<and> write_tex data level (Some []) t d = write_tex data level None t d"
  using viewport_box_bad [OF assms, of t]
  by (simp add: write_tex_def viewport_box_def)

theorem write_viewport_arity_witness:
  "[0, 0, 2] \<noteq> ([] :: int list) \<and> length [0, 0, 2 :: int] \<noteq> 5 \<and> \<not> 0 < samples tex0
   \<and> write_tex (FromBytes [1, 2, 3, 4, 5, 6, 7, 8]) 0 (Some [0, 0, 2]) tex0 dev1
        = (Inl ViewportLength, tex0, dev1)"
  using write_viewport_arity [of "[0, 0, 2]" "FromBytes [1, 2, 3, 4, 5, 6, 7, 8]" 0 tex0 dev1]
  by (simp add: tex0_eq)

theorem write_viewport_empty_counterexample:
  "fst (write_tex (FromBytes [1, 2, 3, 4, 5, 6, 7, 8]) 0 (Some []) tex0 dev1) = Inr ()"
  by (simp add: write_tex_def viewport_box_def tex0_eq data_to_ctypes_def validate_data_size_def)

section \<open>The byte size\<close>

lemma init_well_formed:
  assumes "TextureArray_init args d = (Inr (), t, d1)"
  shows "well_formed t"
  using init_success(5,6,13) [OF assms] init_conditions(1) [OF assms]
  by (auto simp add: well_formed_def)





section \<open>Write, then read\<close>

lemma sub_image_full:
  assumes len: "length data = W * H * pix" and i: "i < W * H * pix"
  shows "sub_image_bytes W H pix 0 0 0 W H data old i = data ! i"
proof -
  have pos: "0 < pix" "0 < W" "0 < H" using i by (auto intro: gr0I)
  define p where "p = i div pix"
  have p: "p < W * H" using i pos unfolding p_def by (simp add: less_mult_imp_div_less)
  have cl: "p div (W * H) = 0" using p by simp
  have cx: "p mod W < W" using pos by simp
  have ch: "p div W < H" using p by (simp add: less_mult_imp_div_less mult.commute)
  then have cy: "(p div W) mod H = p div W" by simp
  have j: "(p div W * W + p mod W) * pix + i mod pix = i" by (simp add: p_def)
  show ?thesis
    unfolding sub_image_bytes_def Let_def p_def [symmetric]
    using pos cl cx ch j i len by simp
qed

lemma textures_upd_bound:
  "textures (upd_bound tgt f d) k =
     (if k = bound_name tgt d then map_option f (textures d k) else textures d k)"
  by (simp add: upd_bound_def split: option.splits)

lemma textures_bind_self:
  "textures d (glo t) = Some obj \<Longrightarrow> textures (bind_self t d) (glo t) = Some obj"
  by (simp add: bind_self_def glBindTexture_def glActiveTexture_def)

lemma bound_name_keep [simp]:
  "bound_name tgt (glPixelStorei p v d) = bound_name tgt d"
  "bound_name tgt (glTexSubImage3D tgt' lv x y l w h dp fmt ty data d) = bound_name tgt d"
  by (simp_all add: bound_name_def)

lemma image_dims_keep [simp]:
  "image_dims (glTexParameteri tgt p v d) k = image_dims d k"
  "image_dims (glTexParameterf tgt p x d) k = image_dims d k"
  "image_dims (glPixelStorei pn n d) k = image_dims d k"
  "image_dims (glBindBuffer b d) k = image_dims d k"
  "image_dims (stats_incr d) k = image_dims d k"
  "image_dims (bind_self t d) k = image_dims d k"
  "image_dims (glTexSubImage3D tgt lv x y l w h dp fmt ty data d) k = image_dims d k"
  by (auto simp add: image_dims_def glTexParameteri_def glTexParameterf_def textures_upd_bound
        glBindBuffer_def stats_incr_def bind_self_def glBindTexture_def glActiveTexture_def
        glTexSubImage3D_def split: option.splits)

lemma image_dims_set_image:
  assumes "bound_name tgt d = k" and "textures d k = Some obj" and "gt_image obj = None"
    and "0 \<le> w" and "0 \<le> h" and "0 \<le> l"
  shows "image_dims (set_image tgt ifmt w h l smp imm bs d) k = Some (nat w, nat h, nat l)"
  using assms by (simp add: image_dims_def set_image_def textures_upd_bound is_immutable_def)

lemma write_tex_image_dims [simp]:
  "image_dims (snd (snd (write_tex data lv vp t d))) k = image_dims d k"
  by (simp add: write_tex_def data_to_ctypes_def Let_def
        split: sum.splits prod.splits write_data.splits option.splits)

lemma set_sampling_image_dims [simp]:
  "image_dims (snd (snd (set_sampling args t d))) k = image_dims d k"
  by (simp add: set_sampling_def then_res_def filter_setter_def wrap_x_setter_def
        wrap_y_setter_def Let_def split: option.splits sum.splits prod.splits)


lemma texture_2d_image:
  assumes tx: "texture_2d data t d = (Inr (), t', d')"
    and nd: "\<not> depth t" and tg: "tex_target t = GL_TEXTURE_2D_ARRAY"
    and bn: "bound_name (tex_target t) d = glo t"
    and ob: "textures d (glo t) = Some obj" and im: "gt_image obj = None"
    and dims: "0 \<le> width t" "0 \<le> height t" "0 \<le> layers t"
  shows "image_dims d' (glo t) = Some (nat (width t), nat (height t), nat (layers t))"
proof (cases "pixel_formats (dtype t)")
  case None
  with tx show ?thesis by (simp add: texture_2d_def)
next
  case (Some a)
  obtain fmts ifmts ty csize where a: "a = (fmts, ifmts, ty, csize)"
    by (cases a) auto
  define d1 where "d1 = glPixelStorei GL_PACK_ALIGNMENT (alignment t)
                          (glPixelStorei GL_UNPACK_ALIGNMENT (alignment t) d)"
  have b1: "bound_name GL_TEXTURE_2D_ARRAY d1 = glo t" using bn tg by (simp add: d1_def)
  have o1: "textures d1 (glo t) = Some obj" using ob by (simp add: d1_def)
  have S: "\<And>ifmt smp imm bs.
      image_dims (set_image GL_TEXTURE_2D_ARRAY ifmt (width t) (height t) (layers t)
                    smp imm bs d1) (glo t)
        = Some (nat (width t), nat (height t), nat (layers t))"
    by (rule image_dims_set_image [OF b1 o1 im dims])
  have W: "\<And>bs t2 d2. write_tex (FromBytes bs) 0 None t2 d2 = (Inr (), t', d')
             \<Longrightarrow> image_dims d' (glo t) = image_dims d2 (glo t)"
    using write_tex_image_dims by (metis snd_conv)
  show ?thesis
    using tx nd tg unfolding texture_2d_def Some a
    by (auto simp add: Let_def d1_def [symmetric] glTexImage3D_def glTexStorage3D_def
          glCompressedTexImage3D_def S split: option.splits sum.splits if_splits dest!: W)
qed

text \<open>
  A texture that \<^verbatim>\<open>__init__\<close> has made under a name the device did not hold before,
  not multisampled, not a depth texture and with dimensions that are not negative, is
  \<open>ready\<close>; a successful \<^verbatim>\<open>resize\<close> keeps a texture well formed.
\<close>

lemma init_ready:
  assumes init: "TextureArray_init args d = (Inr (), t, d1)"
    and smp: "samples t = 0" and nd: "\<not> depth t"
    and fresh: "textures d (next_name d) = None"
    and dims: "0 \<le> width t" "0 \<le> height t" "0 \<le> layers t"
  shows "ready t d1"
proof -
  note s = init_success [OF init]
  have s0: "samples (init_fields args d) = 0"
    using s(8) smp by (simp add: init_fields_def)
  define t2 where "t2 = (init_fields args d)\<lparr>tex_target :=
              (if samples (init_fields args d) = 0 then GL_TEXTURE_2D_ARRAY
               else GL_TEXTURE_2D_MULTISAMPLE_ARRAY), glo := next_name d\<rparr>"
  define d2 where "d2 = glBindTexture
             (if samples (init_fields args d) = 0 then GL_TEXTURE_2D_ARRAY
              else GL_TEXTURE_2D_MULTISAMPLE_ARRAY) (next_name d)
             (snd (glGenTextures (glActiveTexture (default_texture_unit d) d)))"
  note u = init_unfold [OF init_conditions [OF init], folded t2_def d2_def]
  from init [unfolded u] obtain y3 t3 d3 where
    tx: "texture_2d (a_data args) t2 d2 = (Inr y3, t3, d3)"
    and r3: "then_res
            (if samples t3 = 0 then set_sampling args t3 d3 else (Inr (), t3, d3))
            (\<lambda>_ t4 d4.
               (Inr (),
                (if gc_mode d4 = ''auto'' then t4\<lparr>finalizer := True\<rparr> else t4),
                stats_incr d4)) = (Inr (), t, d1)"
    by (rule then_res_Inr)
  from r3 obtain y4 t4 d4 where
    sm: "(if samples t3 = 0 then set_sampling args t3 d3 else (Inr (), t3, d3))
           = (Inr y4, t4, d4)"
    and fin: "(Inr (), (if gc_mode d4 = ''auto'' then t4\<lparr>finalizer := True\<rparr> else t4),
                stats_incr d4) = (Inr (), t, d1)"
    by (auto elim: then_res_Inr)
  have g2: "glo t2 = next_name d" "tex_target t2 = GL_TEXTURE_2D_ARRAY"
    "width t2 = width t" "height t2 = height t" "layers t2 = layers t" "\<not> depth t2"
    using s(2,3,4,7) s0 nd by (simp_all add: t2_def init_fields_def)
  have b2: "bound_name (tex_target t2) d2 = glo t2"
    by (simp add: g2 d2_def s0 bound_name_def glBindTexture_def glGenTextures_def
          glActiveTexture_def)
  have o2: "textures d2 (glo t2) = Some \<lparr>gt_params = Map.empty, gt_image = None\<rparr>"
    using fresh
    by (simp add: g2 d2_def s0 glBindTexture_def glGenTextures_def glActiveTexture_def)
  have i3: "image_dims d3 (glo t2) = Some (nat (width t2), nat (height t2), nat (layers t2))"
    using texture_2d_image [OF _ g2(6) g2(2) b2 o2] tx dims by (simp add: g2)
  have i4: "image_dims d4 (glo t2) = image_dims d3 (glo t2)"
  proof (cases "samples t3 = 0")
    case True
    with sm have e: "set_sampling args t3 d3 = (Inr y4, t4, d4)" by simp
    show ?thesis using set_sampling_image_dims [of args t3 d3 "glo t2"] unfolding e by simp
  next
    case False
    with sm show ?thesis by simp
  qed
  have i1: "image_dims d1 (glo t) = Some (nat (width t), nat (height t), nat (layers t))"
    using fin i4 i3 s(1) by (auto simp add: g2)
  from s(13) smp nd obtain fmts ifmts ty where
    p: "pixel_formats (a_dtype args) = Some (fmts, ifmts, ty, component_size t)"
    and ty: "tex_type t = Some ty" and fm: "tex_format t = Some (fmts (components t))"
    by blast
  have c: "components t \<in> {1, 2, 3, 4}" using init_conditions(1) [OF init] s(6) by simp
  have px: "int (pixel_bytes (fmts (components t)) ty) = component_size t * components t"
    using pixel_formats_Some(1,2) [OF p] c by (auto simp add: pixel_bytes_def)
  show ?thesis
    using i1 ty fm px dims
    by (auto simp add: ready_def image_dims_def split: option.splits)
qed

lemma resize_well_formed:
  assumes "well_formed t" and "resize sz t d = (Inr (), t', d')"
  shows "well_formed t'"
proof -
  have tx: "texture_2d None (t\<lparr>width := fst sz, height := snd sz\<rparr>) (bind_self t d)
              = (Inr (), t', d')"
    using assms(2) by (simp add: resize_def split: if_splits)
  from texture_2d_success [OF tx] texture_2d_res(1) [OF tx] assms(1)
  show ?thesis by (auto simp add: well_formed_def shape_def split: option.splits)
qed

text \<open>
  What \<^verbatim>\<open>write\<close> with the viewport omitted and a full \<^verbatim>\<open>read\<close> do on a texture
  that is ready: the byte string has to have the size of one layer, it goes to layer
  0, and the bytes read back, layers times as many, start with it.
\<close>

lemma write_then_read:
  assumes smp: "samples t = 0"
    and cmp: "\<not> compressed t"
    and api: "gl_api d = ''gl''"
    and rdy: "ready t d"
    and lay: "1 \<le> layers t"
    and len: "int (length data) = width t * height t * component_size t * components t"
  shows "\<exists>d1 bs d2.
           write_tex (FromBytes data) 0 None t d = (Inr (), t, d1)
           \<and> read 0 1 t d1 = (Inr bs, t, d2)
           \<and> int (length bs) = int (length data) * layers t
           \<and> take (length data) bs = data
           \<and> (layers t = 1 \<longrightarrow> bs = data)"
proof -
  from rdy obtain fmt ty obj im where
    fm: "tex_format t = Some fmt" and ty: "tex_type t = Some ty"
    and ob: "textures d (glo t) = Some obj" and im: "gt_image obj = Some im"
    and W: "int (im_width im) = width t" and H: "int (im_height im) = height t"
    and L: "int (im_layers im) = layers t"
    and px: "int (pixel_bytes fmt ty) = component_size t * components t"
    by (auto simp add: ready_def split: option.splits)
  define pix where "pix = pixel_bytes fmt ty"
  have len': "length data = im_width im * im_height im * pix"
  proof -
    have "int (length data) = int (im_width im * im_height im * pix)"
      using len W H px by (simp add: pix_def mult.assoc)
    then show ?thesis by (simp only: of_nat_eq_iff)
  qed
  define d0 where "d0 = glPixelStorei GL_UNPACK_ALIGNMENT 1
                          (glPixelStorei GL_PACK_ALIGNMENT 1 (bind_self t d))"
  define d1 where "d1 = glTexSubImage3D (tex_target t) 0 0 0 0 (width t) (height t) 1
                          fmt ty data d0"
  have wr: "write_tex (FromBytes data) 0 None t d = (Inr (), t, d1)"
    using smp cmp fm ty len
    by (simp add: write_tex_def viewport_box_def data_to_ctypes_def validate_data_size_def
          d1_def d0_def Let_def)
  have b0: "bound_name (tex_target t) d0 = glo t" by (simp add: d0_def)
  have o0: "textures d0 (glo t) = Some obj"
    using textures_bind_self [OF ob] by (simp add: d0_def)
  define im' where "im' = im\<lparr>im_bytes :=
      sub_image_bytes (im_width im) (im_height im) pix 0 0 0 (im_width im) (im_height im)
        data (im_bytes im)\<rparr>"
  have o1: "textures d1 (glo t) = Some (obj\<lparr>gt_image := Some im'\<rparr>)"
    unfolding d1_def glTexSubImage3D_def textures_upd_bound b0
    using o0 im W H L lay
    by (simp add: im'_def pix_def W [symmetric] H [symmetric])
  define d2 where "d2 = glPixelStorei GL_PACK_ALIGNMENT 1 (bind_self t d1)"
  have api1: "gl_api d1 = ''gl''" using api by (simp add: d1_def d0_def)
  have o2: "textures d2 (glo t) = Some (obj\<lparr>gt_image := Some im'\<rparr>)"
    using textures_bind_self [OF o1] by (simp add: d2_def)
  have b2: "bound_name (tex_target t) d2 = glo t" by (simp add: d2_def)
  have a2: "pack_alignment d2 = 1" by (simp add: d2_def glPixelStorei_def)
  define n where "n = width t * height t * layers t * component_size t * components t"
  have n: "n = int (length data * im_layers im)"
    using len L by (simp add: n_def mult_ac)
  have n0: "0 \<le> n" unfolding n by simp
  define bs where "bs = map (im_bytes im') [0..<nat n]"
  have rd: "read 0 1 t d1 = (Inr bs, t, d2)"
    using smp api1 fm ty n0 o2 b2 a2
    by (simp add: read_def Let_def n_def [symmetric] d2_def [symmetric] glGetTexImage_def bs_def)
  have nn: "nat n = length data * im_layers im" unfolding n by (rule nat_int)
  have l1: "1 \<le> im_layers im" using lay L by linarith
  have le: "length data \<le> nat n" using l1 unfolding nn by simp
  have "take (length data) bs = map (im_bytes im') [0..<length data]"
    using le by (simp add: bs_def take_map min_def)
  also have "\<dots> = map ((!) data) [0..<length data]"
  proof (rule map_cong [OF refl])
    fix i assume "i \<in> set [0..<length data]"
    then have "i < im_width im * im_height im * pix" using len' by simp
    then show "im_bytes im' i = data ! i"
      using sub_image_full [OF len'] by (simp add: im'_def)
  qed
  also have "\<dots> = data" by (rule map_nth)
  finally have tk: "take (length data) bs = data" .
  have lb: "int (length bs) = int (length data) * layers t"
    using L by (simp add: bs_def nn)
  have "layers t = 1 \<longrightarrow> bs = data"
  proof
    assume "layers t = 1"
    then have "length bs = length data" using lb by simp
    with tk show "bs = data" by (metis order_refl take_all)
  qed
  with wr rd tk lb show ?thesis by blast
qed

lemma init_two_layers_data:
  "fst (TextureArray_init
          (args0\<lparr>a_data := Some [1, 2, 3, 4, 5, 6, 7, 8, 9, 10, 11, 12, 13, 14, 15, 16]\<rparr>)
          dev0) = Inr ()"
  "fst (TextureArray_init
          (args0\<lparr>a_data := Some [1, 2, 3, 4, 5, 6, 7, 8, 9, 10, 11, 12, 13, 14, 15, 16],
                  a_immutable := True\<rparr>)
          dev0) = Inl DataSizeExpected"
   apply (simp_all add: TextureArray_init_def args0_def default_args_def init_fields_def
      dev0_def py_min_def py_max_def data_truthy_def Let_def glActiveTexture_def
      glGenTextures_def glBindTexture_def)
   apply (simp_all add: texture_2d_def pixel_formats_def Let_def data_to_ctypes_def
      validate_data_size_def)
   apply (simp_all add: then_res_def set_sampling_def filter_setter_def wrap_x_setter_def
      wrap_y_setter_def write_tex_def viewport_box_def data_to_ctypes_def
      validate_data_size_def split: prod.splits)
  done

text \<open>
  C4. What the code does on a texture of two layers of two by one RGBA pixels, on
  the full API variant, not multisampled and not compressed. With the viewport
  omitted \<^verbatim>\<open>write\<close> accepts only a byte string of the size of one layer and writes
  layer 0, so the full \<^verbatim>\<open>read\<close> that follows does not return the bytes written; a
  byte string of the size of the whole texture is rejected by \<^verbatim>\<open>write\<close>. The same
  sixteen bytes are accepted as the data of \<^verbatim>\<open>__init__\<close>, which checks them against
  all layers, and the creation of the immutable texture, which hands them on to
  \<^verbatim>\<open>write\<close>, fails.
\<close>

theorem write_read_two_layers:
  "samples tex0 = 0 \<and> \<not> compressed tex0 \<and> gl_api dev1 = ''gl'' \<and> layers tex0 = 2
   \<and> fst (write_tex (FromBytes [1, 2, 3, 4, 5, 6, 7, 8]) 0 None tex0 dev1) = Inr ()
   \<and> fst (read 0 1 tex0
             (snd (snd (write_tex (FromBytes [1, 2, 3, 4, 5, 6, 7, 8]) 0 None tex0 dev1))))
       \<noteq> Inr [1, 2, 3, 4, 5, 6, 7, 8]
   \<and> fst (write_tex (FromBytes [1, 2, 3, 4, 5, 6, 7, 8, 9, 10, 11, 12, 13, 14, 15, 16])
             0 None tex0 dev1) = Inl DataSizeExpected
   \<and> fst (TextureArray_init
          (args0\<lparr>a_data := Some [1, 2, 3, 4, 5, 6, 7, 8, 9, 10, 11, 12, 13, 14, 15, 16]\<rparr>)
          dev0) = Inr ()
   \<and> fst (TextureArray_init
          (args0\<lparr>a_data := Some [1, 2, 3, 4, 5, 6, 7, 8, 9, 10, 11, 12, 13, 14, 15, 16],
                  a_immutable := True\<rparr>)
          dev0) = Inl DataSizeExpected"
proof -
  have h: "samples tex0 = 0" "\<not> compressed tex0" "1 \<le> layers tex0"
    "int (length [1, 2, 3, 4, 5, 6, 7, 8 :: byte])
        = width tex0 * height tex0 * component_size tex0 * components tex0"
    by (simp_all add: tex0_eq)
  from write_then_read [OF h(1,2) dev1_ctx(1) ready0 h(3,4)]
  obtain d1 bs d2 where
    w: "write_tex (FromBytes [1, 2, 3, 4, 5, 6, 7, 8]) 0 None tex0 dev1 = (Inr (), tex0, d1)"
    and r: "read 0 1 tex0 d1 = (Inr bs, tex0, d2)"
    and l: "int (length bs) = int (length [1, 2, 3, 4, 5, 6, 7, 8 :: byte]) * layers tex0"
    by blast
  have "length bs = 16" using l by (simp add: tex0_eq)
  then have ne: "bs \<noteq> [1, 2, 3, 4, 5, 6, 7, 8]" by auto
  have big: "fst (write_tex (FromBytes [1, 2, 3, 4, 5, 6, 7, 8, 9, 10, 11, 12, 13, 14, 15, 16])
             0 None tex0 dev1) = Inl DataSizeExpected"
    by (simp add: write_tex_def viewport_box_def tex0_eq data_to_ctypes_def
          validate_data_size_def)
  show ?thesis unfolding w using r ne big dev1_ctx(1) init_two_layers_data
    by (simp add: tex0_eq)
qed

end
